theory Spec2Isabelle
  imports Complex_Main "HOL-Library.Word"
begin

section \<open>Conventions of the embedding\<close>

text \<open>
  The development embeds the frame builder of \<^verbatim>\<open>src/Android/jni/Canvas.cpp\<close> and
  \<^verbatim>\<open>Canvas.h\<close> as it is compiled for release (\<^verbatim>\<open>DEBUG\<close> undefined, so \<^verbatim>\<open>ASSERT\<close>,
  \<^verbatim>\<open>DLog\<close>, \<^verbatim>\<open>UpdateFrameRate\<close> and \<^verbatim>\<open>RenderText\<close> do nothing) with
  \<^verbatim>\<open>USE_INDEX_BUFFER\<close> defined.

  \<^item> \<^verbatim>\<open>float\<close> and \<^verbatim>\<open>double\<close> are idealised as \<^typ>\<open>real\<close>: rounding, infinities and
    NaN are not represented. A division by a texture dimension of zero is therefore
    excluded by hypothesis wherever a theorem speaks about its result.
  \<^item> \<^verbatim>\<open>int\<close> is \<^typ>\<open>int\<close>; where the source adds or multiplies values that come from the
    caller, a result outside the 32-bit range (undefined behaviour in C++) is a fault
    of the model. Sizes and loop counters that the source never takes below zero are
    \<^typ>\<open>nat\<close>.
  \<^item> A \<^verbatim>\<open>const char *\<close> is the \<^typ>\<open>string\<close> of the bytes before its terminator; the
    cursor \<^verbatim>\<open>p\<close> of a parser is the rest of the text, and \<^verbatim>\<open>*p == 0\<close> is \<open>p = []\<close>.
  \<^item> A dereference of a null pointer and a read outside an allocation are faults.
  \<^item> A \<^verbatim>\<open>new\<close> that cannot be served throws. Nothing in the source catches the
    exception, so the call that was running does not complete: the fault \<open>BadAlloc\<close>.
    The readback buffer of a capture, whose size comes from the caller, is asked of
    the platform; the small objects (streams, textures, requests, callbacks) are
    taken to be allocated.
\<close>

datatype fault = NullDeref | OutOfBounds | SignedOverflow | BadAlloc

definition int_ok :: "int \<Rightarrow> bool" where
  "int_ok v \<longleftrightarrow> - (2 ^ 31) \<le> v \<and> v < 2 ^ 31"

text \<open>The cast \<^verbatim>\<open>(int)\<close> of a floating-point value truncates towards zero.\<close>

definition c_int_cast :: "real \<Rightarrow> int" where
  "c_int_cast v = (if 0 \<le> v then \<lfloor>v\<rfloor> else \<lceil>v\<rceil>)"

section \<open>DynArray\<close>

text \<open>
  \<^verbatim>\<open>DynArray<T>\<close> owns a block of \<^verbatim>\<open>m_allocatedSize\<close> slots, of which the first
  \<^verbatim>\<open>m_size\<close> are in use. \<open>m_entries\<close> is the whole block, so that
  \<^verbatim>\<open>m_allocatedSize\<close> is its length; a slot behind \<open>m_size\<close> keeps whatever was last
  written to it. \<^verbatim>\<open>operator[]\<close> checks nothing in a release build: \<open>DynArray_at\<close> reads
  any slot of the block and faults outside of it. The parameter \<open>z\<close> is the all-zero
  value of the element type, written by \<^verbatim>\<open>memset\<close>.
\<close>

record 'a DynArray =
  m_entries :: "'a list"
  m_size :: nat

function grow_size :: "nat \<Rightarrow> nat \<Rightarrow> nat" where
  "grow_size newSize size' =
     (if newSize < size' \<and> 0 < newSize then grow_size (newSize * 2) size' else newSize)"
  by pat_completeness auto
termination
  by (relation "measure (\<lambda>(newSize, size'). size' - newSize)") auto

declare grow_size.simps [simp del]

definition SetSize :: "'a \<Rightarrow> nat \<Rightarrow> 'a DynArray \<Rightarrow> 'a DynArray" where
  "SetSize z size' arr =
     (let arr1 =
        (if size' > length (m_entries arr)
         then arr\<lparr>m_entries :=
                m_entries arr @ replicate (grow_size 16 size' - length (m_entries arr)) z\<rparr>
         else arr)
      in arr1\<lparr>m_size := size'\<rparr>)"

definition DynArray_new :: "'a \<Rightarrow> 'a DynArray" where
  "DynArray_new z = SetSize z 0 (SetSize z 8 \<lparr>m_entries = [], m_size = 0\<rparr>)"

definition GetSize :: "'a DynArray \<Rightarrow> nat" where
  "GetSize arr = m_size arr"

definition IsEmpty :: "'a DynArray \<Rightarrow> bool" where
  "IsEmpty arr \<longleftrightarrow> m_size arr = 0"

definition DynArray_at :: "'a DynArray \<Rightarrow> nat \<Rightarrow> 'a option" where
  "DynArray_at arr i = (if i < length (m_entries arr) then Some (m_entries arr ! i) else None)"

text \<open>\<open>mem_copy dst off src\<close> overwrites \<open>length src\<close> slots of \<open>dst\<close> from \<open>off\<close> on.\<close>

definition mem_copy :: "'a list \<Rightarrow> nat \<Rightarrow> 'a list \<Rightarrow> 'a list" where
  "mem_copy dst off src = take off dst @ src @ drop (off + length src) dst"

definition Append :: "'a \<Rightarrow> 'a list \<Rightarrow> 'a DynArray \<Rightarrow> 'a DynArray" where
  "Append z entries arr =
     (if entries \<noteq> [] then
        (let base = m_size arr;
             arr1 = SetSize z (m_size arr + length entries) arr
         in arr1\<lparr>m_entries := mem_copy (m_entries arr1) base entries\<rparr>)
      else arr)"

text \<open>
  \<^verbatim>\<open>RemoveAt\<close> moves the used slots behind \<open>index\<close> down by one and decrements
  \<open>m_size\<close>; the slot that was the last used one keeps its value. Every caller in the
  source has checked that the array is not empty.
\<close>

definition RemoveAt :: "nat \<Rightarrow> 'a DynArray \<Rightarrow> 'a DynArray" where
  "RemoveAt index arr =
     (let e = m_entries arr;
          e1 = (if int index < int (m_size arr) - 1
                then mem_copy e index (take (m_size arr - (index + 1)) (drop (index + 1) e))
                else e)
      in \<lparr>m_entries = e1, m_size = m_size arr - 1\<rparr>)"

section \<open>Data model\<close>

record Clip =
  cx :: real
  cy :: real
  cw :: real
  ch :: real
  px :: real
  py :: real
  pw :: real
  ph :: real
  textureID :: int

text \<open>The fields \<^verbatim>\<open>a, b, c, d, tx, ty\<close> of \<^verbatim>\<open>Transform\<close>, prefixed.\<close>

record Transform =
  T_a :: real
  T_b :: real
  T_c :: real
  T_d :: real
  T_tx :: real
  T_ty :: real

text \<open>The constructor \<^verbatim>\<open>Transform()\<close>.\<close>

definition Transform_new :: Transform where
  "Transform_new = \<lparr>T_a = 1, T_b = 0, T_c = 0, T_d = 1, T_tx = 0, T_ty = 0\<rparr>"

record Texture =
  m_textureID :: int
  m_glID :: int
  m_Width :: int
  m_Height :: int

text \<open>
  A \<^verbatim>\<open>Texture\<close> object never changes after its construction, so a non-null
  \<^verbatim>\<open>Texture *\<close> is the address of the object together with the object. Two
  pointers are equal when they hold the same address, and then the same object.
\<close>

type_synonym TexturePtr = "nat \<times> Texture"

record Vector2 =
  V_x :: real
  V_y :: real

record Color =
  C_r :: "8 word"
  C_g :: "8 word"
  C_b :: "8 word"
  C_a :: "8 word"

definition SetWhite :: "Color \<Rightarrow> Color" where
  "SetWhite col = \<lparr>C_r = 0xff, C_g = 0xff, C_b = 0xff, C_a = 0xff\<rparr>"

definition isWhite :: "Color \<Rightarrow> bool" where
  "isWhite col \<longleftrightarrow> C_r col = 0xff \<and> C_g col = 0xff \<and> C_b col = 0xff \<and> C_a col = 0xff"

record Vertex2 =
  pos :: Vector2
  tex :: Vector2
  color :: Color

text \<open>
  A \<^verbatim>\<open>Stream\<close>. Its vertex data live in the GL buffer object \<open>vboVertexID\<close> only;
  \<open>vboData\<close> is the content of that buffer object.
\<close>

record Stream =
  texture :: "TexturePtr option"
  vboVertexID :: nat
  nVBOAllocated :: int
  nVertex :: int
  usesColor :: bool
  vboData :: "Vertex2 list"

definition Stream_new :: "TexturePtr option \<Rightarrow> Stream" where
  "Stream_new img = \<lparr>texture = img, vboVertexID = 0, nVBOAllocated = 0, nVertex = 0,
                     usesColor = False, vboData = []\<rparr>"

definition Reset :: "Stream \<Rightarrow> Stream" where
  "Reset st = st\<lparr>texture := None, usesColor := False\<rparr>"

record CaptureParams =
  cap_x :: int
  cap_y :: int
  cap_width :: int
  cap_height :: int
  cap_callbackID :: string
  cap_fileName :: string

record Callback =
  cb_callbackID :: string
  cb_result :: string
  cb_isError :: bool

text \<open>\<^verbatim>\<open>strncpy(dst, src, ALLOCATED-1); dst[ALLOCATED-1] = 0\<close> with \<^verbatim>\<open>ALLOCATED = 512\<close>.\<close>

definition strncpy511 :: "string \<Rightarrow> string" where
  "strncpy511 src = take 511 src"

definition CaptureParams_new ::
  "int \<Rightarrow> int \<Rightarrow> int \<Rightarrow> int \<Rightarrow> string \<Rightarrow> string \<Rightarrow> CaptureParams" where
  "CaptureParams_new xPos yPos w h callback fn =
     \<lparr>cap_x = xPos, cap_y = yPos, cap_width = w, cap_height = h,
      cap_callbackID = strncpy511 callback, cap_fileName = strncpy511 fn\<rparr>"

definition Callback_new :: "string \<Rightarrow> string \<Rightarrow> bool \<Rightarrow> Callback" where
  "Callback_new ident res err =
     \<lparr>cb_callbackID = strncpy511 ident, cb_result = strncpy511 res, cb_isError = err\<rparr>"

section \<open>The platform\<close>

text \<open>
  What the frame builder calls but does not define: \<^verbatim>\<open>atof\<close> and \<^verbatim>\<open>atoi\<close> of the C
  library (behind \<^verbatim>\<open>FastFloat\<close> and \<^verbatim>\<open>FastInt\<close>), the allocation of the readback
  buffer, and the PNG encoder. \<open>uninit_textureID\<close> is the indeterminate value that the
  local \<^verbatim>\<open>Clip clip\<close> of \<^verbatim>\<open>BuildStreams\<close> holds in \<^verbatim>\<open>textureID\<close> before the first
  draw command has written it. \<open>new_GLubyte n\<close> tells whether the platform has \<open>n\<close>
  bytes for the readback buffer. The encoder's result may depend on the files
  written before; it is given the log of those. A result of \<open>0\<close> is success.
\<close>

type_synonym png_write = "string \<times> int \<times> int \<times> int \<times> int"

record Platform =
  atof :: "string \<Rightarrow> real"
  atoi :: "string \<Rightarrow> int"
  uninit_textureID :: int
  new_GLubyte :: "int \<Rightarrow> bool"
  lodepng_encode32_file :: "png_write list \<Rightarrow> png_write \<Rightarrow> nat"
  lodepng_error_text :: "nat \<Rightarrow> string"

definition FastFloat :: "Platform \<Rightarrow> string \<Rightarrow> real" where
  "FastFloat P str = atof P str"

definition FastInt :: "Platform \<Rightarrow> string \<Rightarrow> int" where
  "FastInt P str = atoi P str"

subsection \<open>Decimal numerals\<close>

text \<open>
  A model of \<^verbatim>\<open>atoi\<close> and \<^verbatim>\<open>atof\<close> on decimal text, for the concrete command
  streams below: leading white space, an optional sign, digits, and for \<^verbatim>\<open>atof\<close> a
  fraction and an exponent; anything else ends the number, and text that starts
  with no number is \<open>0\<close>. Hexadecimal notation, \<^verbatim>\<open>inf\<close> and \<^verbatim>\<open>nan\<close> are not modelled.
\<close>

definition c_isspace :: "char \<Rightarrow> bool" where
  "c_isspace c \<longleftrightarrow> (of_char c :: nat) = 32 \<or> (9 \<le> (of_char c :: nat) \<and> (of_char c :: nat) \<le> 13)"

definition c_isdigit :: "char \<Rightarrow> bool" where
  "c_isdigit c \<longleftrightarrow> 48 \<le> (of_char c :: nat) \<and> (of_char c :: nat) \<le> 57"

definition digits_val :: "string \<Rightarrow> nat" where
  "digits_val ds = foldl (\<lambda>acc c. 10 * acc + (of_char c - 48)) 0 ds"

definition take_sign :: "string \<Rightarrow> bool \<times> string" where
  "take_sign str =
     (case str of
        [] \<Rightarrow> (False, [])
      | c # r \<Rightarrow> if c = CHR ''-'' then (True, r) else if c = CHR ''+'' then (False, r)
                 else (False, str))"

definition atoi_dec :: "string \<Rightarrow> int" where
  "atoi_dec str =
     (let (neg, s1) = take_sign (dropWhile c_isspace str);
          v = int (digits_val (takeWhile c_isdigit s1))
      in if neg then - v else v)"

definition dec_exponent :: "string \<Rightarrow> int" where
  "dec_exponent str =
     (case str of
        [] \<Rightarrow> 0
      | c # r \<Rightarrow>
          if c = CHR ''e'' \<or> c = CHR ''E'' then
            (let (neg, s1) = take_sign r;
                 ds = takeWhile c_isdigit s1
             in if ds = [] then 0 else if neg then - int (digits_val ds) else int (digits_val ds))
          else 0)"

definition atof_dec :: "string \<Rightarrow> real" where
  "atof_dec str =
     (let (neg, s1) = take_sign (dropWhile c_isspace str);
          ip = takeWhile c_isdigit s1;
          r1 = dropWhile c_isdigit s1;
          fp = (case r1 of [] \<Rightarrow> [] | c # r \<Rightarrow> if c = CHR ''.'' then takeWhile c_isdigit r else []);
          r2 = (case r1 of [] \<Rightarrow> [] | c # r \<Rightarrow> if c = CHR ''.'' then dropWhile c_isdigit r else r1);
          m = real (digits_val ip) + real (digits_val fp) / 10 ^ length fp;
          e = dec_exponent r2;
          v = (if ip = [] \<and> fp = [] then 0
               else if 0 \<le> e then m * 10 ^ nat e else m / 10 ^ nat (- e))
      in if neg then - v else v)"

section \<open>The Canvas\<close>

text \<open>
  The members of \<^verbatim>\<open>Canvas\<close> that the frame builder reads or writes. The background
  colour, the ortho size and the frame-rate counters are left out: nothing below
  depends on them. The remaining fields are the state behind the pointers and
  behind the GL calls:
  \<^item> \<open>m_capParams\<close> holds \<^verbatim>\<open>CaptureParams *\<close>: an address \<open>a > 0\<close> stands for the object
    \<open>heap_CaptureParams ! (a - 1)\<close>, \<open>0\<close> is the null pointer. The source never deletes
    a \<^verbatim>\<open>CaptureParams\<close>, so the heap only grows.
  \<^item> \<open>m_streams\<close>, \<open>m_textures\<close> and \<open>m_callbacks\<close> hold pointers to objects that the
    array owns alone; they, \<open>transformStack\<close>, \<open>vertexBuffer\<close> and \<open>m_indices\<close> are
    lists of the used slots, and every access of the source to them that is not
    guarded by a size check is a fault outside the list.
  \<^item> \<open>heap_next\<close> is the address of the next \<^verbatim>\<open>new Texture\<close>, \<open>gl_names\<close> the last
    buffer name given out by \<^verbatim>\<open>glGenBuffers\<close>, \<open>gl_viewport\<close> what
    \<^verbatim>\<open>glGetIntegerv(GL_VIEWPORT)\<close> returns, \<open>gl_draws\<close> the \<^verbatim>\<open>glDrawElements\<close> calls
    since the last \<^verbatim>\<open>glClear\<close> (buffer name, texture name, colour array enabled,
    index count), and \<open>png_log\<close> the files handed to the encoder (file name and the
    rectangle read back).
\<close>

record Canvas =
  contextLost :: bool
  messages :: int
  msgLen :: int
  indexVBO :: nat
  textStream :: Stream
  worldColor :: Color
  transform :: Transform
  transformStack :: "Transform list"
  vertexBuffer :: "Vertex2 list"
  m_streams :: "Stream list"
  m_textures :: "TexturePtr list"
  m_capParams :: "nat DynArray"
  m_callbacks :: "Callback list"
  m_indices :: "16 word list"
  heap_CaptureParams :: "CaptureParams list"
  heap_next :: nat
  gl_names :: nat
  gl_viewport :: "int \<times> int \<times> int \<times> int"
  gl_draws :: "(nat \<times> int \<times> bool \<times> int) list"
  png_log :: "png_write list"

text \<open>The constructor \<^verbatim>\<open>Canvas::Canvas()\<close>, for a GL context with the given viewport.\<close>

definition Canvas_new :: "int \<times> int \<times> int \<times> int \<Rightarrow> Canvas" where
  "Canvas_new vp =
     \<lparr>contextLost = False, messages = 0, msgLen = 0, indexVBO = 0,
      textStream = Stream_new None,
      worldColor = SetWhite \<lparr>C_r = 0, C_g = 0, C_b = 0, C_a = 0\<rparr>,
      transform = Transform_new, transformStack = [], vertexBuffer = [],
      m_streams = [], m_textures = [], m_capParams = DynArray_new 0,
      m_callbacks = [], m_indices = [],
      heap_CaptureParams = [], heap_next = 1, gl_names = 0, gl_viewport = vp,
      gl_draws = [], png_log = []\<rparr>"

section \<open>The transform commands\<close>

datatype ParseMode = IDENTITY | SET_XFORM | SCALE | ROTATE | TRANSLATE | NUM_PARSE_MODES

text \<open>
  \<^verbatim>\<open>while ( *p && (*p != ',' && *p != ';') ) ++p; if ( *p == ',' ) ++p;\<close>
\<close>

definition skip_token :: "string \<Rightarrow> string" where
  "skip_token p =
     (let p1 = dropWhile (\<lambda>c. c \<noteq> CHR '','' \<and> c \<noteq> CHR '';'') p
      in case p1 of [] \<Rightarrow> [] | c # r \<Rightarrow> if c = CHR '','' then r else p1)"

text \<open>\<^verbatim>\<open>if ( *p == ';' ) ++p;\<close>\<close>

definition skip_semicolon :: "string \<Rightarrow> string" where
  "skip_semicolon p = (case p of [] \<Rightarrow> [] | c # r \<Rightarrow> if c = CHR '';'' then r else p)"

function ParseSetTransform_tokens ::
  "Platform \<Rightarrow> real list \<Rightarrow> nat \<Rightarrow> string \<Rightarrow> real list \<times> string" where
  "ParseSetTransform_tokens P tokens iToken p =
     (if p \<noteq> [] \<and> hd p \<noteq> CHR '';'' \<and> iToken < 6
      then ParseSetTransform_tokens P (tokens[iToken := FastFloat P p]) (iToken + 1)
             (skip_token p)
      else (tokens, p))"
  by pat_completeness auto
termination
  by (relation "measure (\<lambda>(P, tokens, iToken, p). 6 - iToken)") auto

declare ParseSetTransform_tokens.simps [simp del]

definition concat_transform :: "Transform \<Rightarrow> Transform \<Rightarrow> Transform" where
  "concat_transform transIn t =
     \<lparr>T_a = T_a transIn * T_a t + T_b transIn * T_c t,
      T_b = T_a transIn * T_b t + T_b transIn * T_d t,
      T_c = T_c transIn * T_a t + T_d transIn * T_c t,
      T_d = T_c transIn * T_b t + T_d transIn * T_d t,
      T_tx = T_a transIn * T_tx t + T_b transIn * T_ty t + T_tx transIn,
      T_ty = T_c transIn * T_tx t + T_d transIn * T_ty t + T_ty transIn\<rparr>"

definition parsed_transform :: "ParseMode \<Rightarrow> real list \<Rightarrow> Transform" where
  "parsed_transform parseMode tokens =
     (case parseMode of
        IDENTITY \<Rightarrow> Transform_new
      | SET_XFORM \<Rightarrow>
          \<lparr>T_a = tokens ! 0, T_b = tokens ! 1, T_c = tokens ! 2, T_d = tokens ! 3,
           T_tx = tokens ! 4, T_ty = tokens ! 5\<rparr>
      | SCALE \<Rightarrow> Transform_new\<lparr>T_a := tokens ! 0, T_d := tokens ! 1\<rparr>
      | ROTATE \<Rightarrow>
          (let angle = tokens ! 0; ca = cos angle; sa = sin angle
           in Transform_new\<lparr>T_a := ca, T_b := sa, T_c := - sa, T_d := ca\<rparr>)
      | TRANSLATE \<Rightarrow> Transform_new\<lparr>T_tx := tokens ! 0, T_ty := tokens ! 1\<rparr>
      | NUM_PARSE_MODES \<Rightarrow> Transform_new)"

text \<open>
  \<^verbatim>\<open>ParseSetTransform\<close> returns the new cursor; the transform written through
  \<^verbatim>\<open>transOut\<close> is the first component of the result.
\<close>

definition ParseSetTransform ::
  "Platform \<Rightarrow> string \<Rightarrow> ParseMode \<Rightarrow> bool \<Rightarrow> Transform \<Rightarrow> Transform \<times> string" where
  "ParseSetTransform P p parseMode concat' transIn =
     (let r = ParseSetTransform_tokens P (replicate 6 0) 0 p;
          t = parsed_transform parseMode (fst r)
      in (if concat' then concat_transform transIn t else t, skip_semicolon (snd r)))"

section \<open>The draw command\<close>

text \<open>
  \<^verbatim>\<open>ParseDrawImage\<close> writes \<^verbatim>\<open>clipOut->textureID\<close> only when the text holds a first
  token; otherwise the field keeps the value it had, which \<open>clipIn\<close> supplies.
\<close>

function ParseDrawImage_tokens ::
  "Platform \<Rightarrow> int \<Rightarrow> real list \<Rightarrow> nat \<Rightarrow> string \<Rightarrow> int \<times> real list \<times> string" where
  "ParseDrawImage_tokens P tid tokens iToken p =
     (if p \<noteq> [] \<and> hd p \<noteq> CHR '';'' \<and> iToken < 9
      then ParseDrawImage_tokens P
             (if iToken = 0 then FastInt P p else tid)
             (if iToken = 0 then tokens else tokens[iToken - 1 := FastFloat P p])
             (iToken + 1) (skip_token p)
      else (tid, tokens, p))"
  by pat_completeness auto
termination
  by (relation "measure (\<lambda>(P, tid, tokens, iToken, p). 9 - iToken)") auto

declare ParseDrawImage_tokens.simps [simp del]

definition ParseDrawImage :: "Platform \<Rightarrow> string \<Rightarrow> Clip \<Rightarrow> Clip \<times> string" where
  "ParseDrawImage P p clipIn =
     (let r = ParseDrawImage_tokens P (textureID clipIn) (replicate 8 0) 0 p;
          tokens = fst (snd r)
      in (\<lparr>cx = tokens ! 0, cy = tokens ! 1, cw = tokens ! 2, ch = tokens ! 3,
           px = tokens ! 4, py = tokens ! 5, pw = tokens ! 6, ph = tokens ! 7,
           textureID = fst r\<rparr>,
          skip_semicolon (snd (snd r))))"

definition ParseUnknown :: "string \<Rightarrow> string" where
  "ParseUnknown p = skip_semicolon (dropWhile (\<lambda>c. c \<noteq> CHR '';'') p)"

subsection \<open>Streams\<close>

text \<open>
  \<^verbatim>\<open>Stream::VBOUpload\<close>, given the last buffer name that GL has handed out.
  \<^verbatim>\<open>glBufferData\<close> replaces the buffer object by the \<open>nVBOAllocated\<close> vertices of the
  scratch buffer; \<^verbatim>\<open>glBufferSubData\<close> overwrites its first \<open>nVertex\<close> vertices.
\<close>

definition VBOUpload :: "nat \<Rightarrow> Vertex2 list \<Rightarrow> Stream \<Rightarrow> nat \<times> Stream" where
  "VBOUpload names buf st =
     (let names1 = (if vboVertexID st = 0 then names + 1 else names);
          st1 = (if vboVertexID st = 0 then st\<lparr>vboVertexID := names + 1\<rparr> else st);
          n = int (length buf)
      in (names1,
          if nVBOAllocated st1 < n
          then st1\<lparr>nVBOAllocated := n, nVertex := n, vboData := buf\<rparr>
          else st1\<lparr>nVertex := n, vboData := mem_copy (vboData st1) 0 buf\<rparr>))"

text \<open>\<^verbatim>\<open>m_streams[n]->VBOUpload( vertexBuffer )\<close> for a slot \<open>n\<close> of the list.\<close>

definition upload_stream :: "nat \<Rightarrow> Canvas \<Rightarrow> Canvas" where
  "upload_stream n s =
     (let r = VBOUpload (gl_names s) (vertexBuffer s) (m_streams s ! n)
      in s\<lparr>gl_names := fst r, m_streams := (m_streams s)[n := snd r]\<rparr>)"

text \<open>The four vertices that \<^verbatim>\<open>DoPushQuad\<close> writes into \<^verbatim>\<open>q.vertexArr\<close>.\<close>

definition Quad_vertexArr ::
  "Transform \<Rightarrow> Clip \<Rightarrow> real \<Rightarrow> real \<Rightarrow> Color \<Rightarrow> Vertex2 list" where
  "Quad_vertexArr t clip width height col =
     [\<lparr>pos = \<lparr>V_x = of_int \<lfloor>T_a t * px clip + T_c t * py clip + T_tx t\<rfloor>,
              V_y = of_int \<lfloor>T_b t * px clip + T_d t * py clip + T_ty t\<rfloor>\<rparr>,
       tex = \<lparr>V_x = cx clip / width, V_y = cy clip / height\<rparr>,
       color = col\<rparr>,
      \<lparr>pos = \<lparr>V_x = of_int \<lfloor>T_a t * (px clip + pw clip) + T_c t * py clip + T_tx t\<rfloor>,
              V_y = of_int \<lfloor>T_b t * (px clip + pw clip) + T_d t * py clip + T_ty t\<rfloor>\<rparr>,
       tex = \<lparr>V_x = (cx clip + cw clip) / width, V_y = cy clip / height\<rparr>,
       color = col\<rparr>,
      \<lparr>pos = \<lparr>V_x = of_int \<lfloor>T_a t * (px clip + pw clip) + T_c t * (py clip + ph clip) + T_tx t\<rfloor>,
              V_y = of_int \<lfloor>T_b t * (px clip + pw clip) + T_d t * (py clip + ph clip) + T_ty t\<rfloor>\<rparr>,
       tex = \<lparr>V_x = (cx clip + cw clip) / width, V_y = (cy clip + ch clip) / height\<rparr>,
       color = col\<rparr>,
      \<lparr>pos = \<lparr>V_x = of_int \<lfloor>T_a t * px clip + T_c t * (py clip + ph clip) + T_tx t\<rfloor>,
              V_y = of_int \<lfloor>T_b t * px clip + T_d t * (py clip + ph clip) + T_ty t\<rfloor>\<rparr>,
       tex = \<lparr>V_x = cx clip / width, V_y = (cy clip + ch clip) / height\<rparr>,
       color = col\<rparr>]"

text \<open>
  \<^verbatim>\<open>DoPushQuad( m_streams[n], transform, clip )\<close>. The stream is the slot \<open>n\<close>; the
  source reads \<^verbatim>\<open>stream->texture->GetWidth()\<close> without a check.
\<close>

definition DoPushQuad :: "int \<Rightarrow> Transform \<Rightarrow> Clip \<Rightarrow> Canvas \<Rightarrow> fault + Canvas" where
  "DoPushQuad n t clip s =
     (if n < 0 \<or> int (length (m_streams s)) \<le> n then Inl OutOfBounds
      else
        (let st = m_streams s ! nat n in
         case texture st of
           None \<Rightarrow> Inl NullDeref
         | Some img \<Rightarrow>
             (let q = Quad_vertexArr t clip (of_int (m_Width (snd img)))
                        (of_int (m_Height (snd img))) (worldColor s);
                  st1 = (if \<not> isWhite (worldColor s) then st\<lparr>usesColor := True\<rparr> else st)
              in Inr (s\<lparr>m_streams := (m_streams s)[nat n := st1],
                        vertexBuffer := vertexBuffer s @ q\<rparr>))))"

text \<open>The loop of \<^verbatim>\<open>BuildStreams\<close> that looks a texture ID up: the first match.\<close>

definition find_texture :: "TexturePtr list \<Rightarrow> int \<Rightarrow> TexturePtr option" where
  "find_texture texs tid = List.find (\<lambda>img. m_textureID (snd img) = tid) texs"

text \<open>
  The choice of the stream for a resolved texture \<open>img\<close>: continue with slot \<open>n\<close>
  when it holds the same texture, otherwise upload slot \<open>n\<close>, advance, and reuse or
  create the next slot. The result is the new state and the new \<open>n\<close>.
\<close>

definition select_stream :: "TexturePtr \<Rightarrow> int \<Rightarrow> Canvas \<Rightarrow> fault + (Canvas \<times> int)" where
  "select_stream img n s =
     (if 0 \<le> n \<and> n < int (length (m_streams s))
         \<and> texture (m_streams s ! nat n) = Some img
      then Inr (s, n)
      else
        (let s1 = (if 0 \<le> n \<and> n < int (length (m_streams s))
                   then upload_stream (nat n) s else s);
             n1 = n + 1
         in if n1 = int (length (m_streams s1))
            then Inr (s1\<lparr>m_streams := m_streams s1 @ [Stream_new (Some img)],
                         vertexBuffer := []\<rparr>, n1)
            else if 0 \<le> n1 \<and> n1 < int (length (m_streams s1))
            then Inr (s1\<lparr>m_streams :=
                           (m_streams s1)[nat n1 := (m_streams s1 ! nat n1)\<lparr>texture := Some img\<rparr>],
                         vertexBuffer := []\<rparr>, n1)
            else Inl OutOfBounds))"

definition draw_image :: "Clip \<Rightarrow> int \<Rightarrow> Canvas \<Rightarrow> fault + (Canvas \<times> int)" where
  "draw_image clip n s =
     (case find_texture (m_textures s) (textureID clip) of
        None \<Rightarrow> Inr (s, n)
      | Some img \<Rightarrow>
          (case select_stream img n s of
             Inl e \<Rightarrow> Inl e
           | Inr r \<Rightarrow>
               (case DoPushQuad (snd r) (transform (fst r)) clip (fst r) of
                  Inl e \<Rightarrow> Inl e
                | Inr s2 \<Rightarrow> Inr (s2, snd r))))"

section \<open>BuildStreams\<close>

text \<open>
  The locals of the interpreter loop are the canvas, \<^verbatim>\<open>clip\<close> and the index \<^verbatim>\<open>n\<close> of
  the active stream (\<open>-1\<close> for none). One step handles the command at the cursor
  \<open>p \<noteq> []\<close> and returns the cursor behind it. The alpha command converts a
  floating-point value to \<^verbatim>\<open>int\<close>, which is undefined outside the range of \<^verbatim>\<open>int\<close>.
\<close>

type_synonym locals = "Canvas \<times> Clip \<times> int"

definition set_alpha :: "real \<Rightarrow> Canvas \<Rightarrow> fault + Canvas" where
  "set_alpha alpha s =
     (let v = c_int_cast (255 * alpha + 0.5)
      in if int_ok v then Inr (s\<lparr>worldColor := (worldColor s)\<lparr>C_a := word_of_int v\<rparr>\<rparr>)
         else Inl SignedOverflow)"

definition restore :: "Canvas \<Rightarrow> Canvas" where
  "restore s =
     (if length (transformStack s) > 0
      then s\<lparr>transform := transformStack s ! (length (transformStack s) - 1),
             transformStack := take (length (transformStack s) - 1) (transformStack s)\<rparr>
      else s)"

definition BuildStreams_step :: "Platform \<Rightarrow> locals \<Rightarrow> string \<Rightarrow> fault + (locals \<times> string)" where
  "BuildStreams_step P st p =
     (let s = fst st; clip = fst (snd st); n = snd (snd st); c = hd p; q = tl p in
      if c = CHR ''t'' then
        (let r = ParseSetTransform P q SET_XFORM False (transform s)
         in Inr ((s\<lparr>transform := fst r\<rparr>, clip, n), snd r))
      else if c = CHR ''f'' then
        (let r = ParseSetTransform P q SET_XFORM True (transform s)
         in Inr ((s\<lparr>transform := fst r\<rparr>, clip, n), snd r))
      else if c = CHR ''m'' then
        (let r = ParseSetTransform P q IDENTITY False (transform s)
         in Inr ((s\<lparr>transform := fst r\<rparr>, clip, n), snd r))
      else if c = CHR ''k'' then
        (let r = ParseSetTransform P q SCALE True (transform s)
         in Inr ((s\<lparr>transform := fst r\<rparr>, clip, n), snd r))
      else if c = CHR ''r'' then
        (let r = ParseSetTransform P q ROTATE True (transform s)
         in Inr ((s\<lparr>transform := fst r\<rparr>, clip, n), snd r))
      else if c = CHR ''l'' then
        (let r = ParseSetTransform P q TRANSLATE True (transform s)
         in Inr ((s\<lparr>transform := fst r\<rparr>, clip, n), snd r))
      else if c = CHR ''v'' then
        Inr ((s\<lparr>transformStack := transformStack s @ [transform s]\<rparr>, clip, n), q)
      else if c = CHR ''e'' then
        Inr ((restore s, clip, n), q)
      else if c = CHR ''a'' then
        (case set_alpha (FastFloat P q) s of
           Inl e \<Rightarrow> Inl e
         | Inr s1 \<Rightarrow> Inr ((s1, clip, n), skip_semicolon (dropWhile (\<lambda>c. c \<noteq> CHR '';'') q)))
      else if c = CHR ''d'' then
        (let r = ParseDrawImage P q clip in
         case draw_image (fst r) n s of
           Inl e \<Rightarrow> Inl e
         | Inr r1 \<Rightarrow> Inr ((fst r1, fst r, snd r1), snd r))
      else Inr (st, ParseUnknown p))"

text \<open>Every parser returns a cursor that is not before the one it was given.\<close>

lemma length_skip_semicolon: "length (skip_semicolon p) \<le> length p"
  by (simp add: skip_semicolon_def split: list.split)

lemma length_skip_token: "length (skip_token p) \<le> length p"
proof -
  have "length (dropWhile (\<lambda>c. c \<noteq> CHR '','' \<and> c \<noteq> CHR '';'') p) \<le> length p"
    by (rule length_dropWhile_le)
  then show ?thesis
    by (auto simp: skip_token_def Let_def split: list.split)
qed

lemma length_ParseSetTransform_tokens:
  "length (snd (ParseSetTransform_tokens P tokens iToken p)) \<le> length p"
proof (induction P tokens iToken p rule: ParseSetTransform_tokens.induct)
  case (1 P tokens iToken p)
  show ?case
  proof (cases "p \<noteq> [] \<and> hd p \<noteq> CHR '';'' \<and> iToken < 6")
    case True
    with 1 have "length (snd (ParseSetTransform_tokens P (tokens[iToken := FastFloat P p])
                   (iToken + 1) (skip_token p))) \<le> length (skip_token p)"
      by simp
    with True show ?thesis
      using length_skip_token [of p] by (subst ParseSetTransform_tokens.simps) simp
  next
    case False
    then show ?thesis by (subst ParseSetTransform_tokens.simps) auto
  qed
qed

lemma length_ParseSetTransform:
  "length (snd (ParseSetTransform P p parseMode concat' transIn)) \<le> length p"
  using length_ParseSetTransform_tokens [of P "replicate 6 0" 0 p]
        length_skip_semicolon [of "snd (ParseSetTransform_tokens P (replicate 6 0) 0 p)"]
  by (simp add: ParseSetTransform_def Let_def)

lemma length_ParseDrawImage_tokens:
  "length (snd (snd (ParseDrawImage_tokens P tid tokens iToken p))) \<le> length p"
proof (induction P tid tokens iToken p rule: ParseDrawImage_tokens.induct)
  case (1 P tid tokens iToken p)
  show ?case
  proof (cases "p \<noteq> [] \<and> hd p \<noteq> CHR '';'' \<and> iToken < 9")
    case True
    with 1 have "length (snd (snd (ParseDrawImage_tokens P
                   (if iToken = 0 then FastInt P p else tid)
                   (if iToken = 0 then tokens else tokens[iToken - 1 := FastFloat P p])
                   (iToken + 1) (skip_token p)))) \<le> length (skip_token p)"
      by simp
    with True show ?thesis
      using length_skip_token [of p] by (subst ParseDrawImage_tokens.simps) simp
  next
    case False
    then show ?thesis by (subst ParseDrawImage_tokens.simps) auto
  qed
qed

lemma length_ParseDrawImage: "length (snd (ParseDrawImage P p clipIn)) \<le> length p"
  using length_ParseDrawImage_tokens [of P "textureID clipIn" "replicate 8 0" 0 p]
        length_skip_semicolon
          [of "snd (snd (ParseDrawImage_tokens P (textureID clipIn) (replicate 8 0) 0 p))"]
  by (simp add: ParseDrawImage_def Let_def)

lemma length_skip_to_semicolon:
  "length (skip_semicolon (dropWhile (\<lambda>c. c \<noteq> CHR '';'') p)) \<le> length p"
  using length_skip_semicolon [of "dropWhile (\<lambda>c. c \<noteq> CHR '';'') p"]
        length_dropWhile_le [of "\<lambda>c. c \<noteq> CHR '';''" p]
  by simp

lemma length_ParseUnknown: "p \<noteq> [] \<Longrightarrow> length (ParseUnknown p) < length p"
proof (cases p)
  case Nil
  assume "p \<noteq> []"
  with Nil show ?thesis by simp
next
  case (Cons c r)
  show ?thesis
  proof (cases "c = CHR '';''")
    case True
    with Cons show ?thesis by (simp add: ParseUnknown_def skip_semicolon_def)
  next
    case False
    with Cons have "ParseUnknown p = skip_semicolon (dropWhile (\<lambda>c. c \<noteq> CHR '';'') r)"
      by (simp add: ParseUnknown_def)
    with Cons show ?thesis
      using length_skip_to_semicolon [of r] by simp
  qed
qed

lemma BuildStreams_step_shorter:
  assumes "BuildStreams_step P st p = Inr r" and "p \<noteq> []"
  shows "length (snd r) < length p"
proof -
  from \<open>p \<noteq> []\<close> have tl: "length (tl p) < length p" by (cases p) simp_all
  have pst: "\<And>m c. length (snd (ParseSetTransform P (tl p) m c (transform (fst st)))) < length p"
    using length_ParseSetTransform tl by (meson le_less_trans)
  have pdi: "length (snd (ParseDrawImage P (tl p) (fst (snd st)))) < length p"
    using length_ParseDrawImage tl by (meson le_less_trans)
  have al: "length (skip_semicolon (dropWhile (\<lambda>c. c \<noteq> CHR '';'') (tl p))) < length p"
    using length_skip_to_semicolon tl by (meson le_less_trans)
  from assms(1) show ?thesis
    using pst pdi al tl length_ParseUnknown [OF \<open>p \<noteq> []\<close>]
    by (auto simp: BuildStreams_step_def Let_def split: if_splits sum.splits)
qed

text \<open>
  The loop \<^verbatim>\<open>while ( *p ) { if ( p >= end ) break; ... }\<close>. The cursor is a suffix
  of \<open>renderCommands\<close>, so its offset from the start is the difference of the
  lengths, and \<^verbatim>\<open>end\<close> is the offset \<open>len\<close>.
\<close>

function BuildStreams_loop ::
  "Platform \<Rightarrow> string \<Rightarrow> int \<Rightarrow> locals \<Rightarrow> string \<Rightarrow> fault + locals" where
  "BuildStreams_loop P renderCommands len st p =
     (if p = [] then Inr st
      else if len \<le> int (length renderCommands) - int (length p) then Inr st
      else case BuildStreams_step P st p of
             Inl e \<Rightarrow> Inl e
           | Inr r \<Rightarrow> BuildStreams_loop P renderCommands len (fst r) (snd r))"
  by pat_completeness auto
termination
  by (relation "measure (\<lambda>(P, renderCommands, len, st, p). length p)")
     (auto dest: BuildStreams_step_shorter)

declare BuildStreams_loop.simps [simp del]

text \<open>
  \<^verbatim>\<open>BuildStreams\<close>: reset every stream, interpret, upload the active stream. Of the
  uninitialised local \<^verbatim>\<open>clip\<close> only \<open>textureID\<close> can be read before it is written;
  the other fields are written by every \<^verbatim>\<open>ParseDrawImage\<close>.
\<close>

definition BuildStreams :: "Platform \<Rightarrow> string \<Rightarrow> int \<Rightarrow> Canvas \<Rightarrow> fault + Canvas" where
  "BuildStreams P renderCommands len s =
     (let s1 = s\<lparr>m_streams := map Reset (m_streams s)\<rparr>;
          clip = \<lparr>cx = 0, cy = 0, cw = 0, ch = 0, px = 0, py = 0, pw = 0, ph = 0,
                  textureID = uninit_textureID P\<rparr>;
          s2 = s1\<lparr>vertexBuffer := [], msgLen := msgLen s1 + len\<rparr>
      in case BuildStreams_loop P renderCommands len (s2, clip, - 1) renderCommands of
           Inl e \<Rightarrow> Inl e
         | Inr st \<Rightarrow>
             (let s3 = fst st; n = snd (snd st)
              in if 0 \<le> n then
                   (if n < int (length (m_streams s3)) then Inr (upload_stream (nat n) s3)
                    else Inl OutOfBounds)
                 else Inr s3))"

section \<open>The shared index buffer\<close>

definition offset :: "nat list" where
  "offset = [0, 1, 2, 0, 3, 2]"

text \<open>
  The loop \<^verbatim>\<open>for( int i=0; i<nIndex; ++i )\<close> of \<^verbatim>\<open>EnsureIndex\<close> with its locals
  \<^verbatim>\<open>c\<close> and \<^verbatim>\<open>base\<close>; an entry is an \<^verbatim>\<open>unsigned short\<close>.
\<close>

function EnsureIndex_fill :: "nat \<Rightarrow> nat \<Rightarrow> nat \<Rightarrow> nat \<Rightarrow> 16 word list \<Rightarrow> 16 word list" where
  "EnsureIndex_fill nIndex i c base ind =
     (if i < nIndex then
        (let ind1 = ind[i := of_nat (offset ! c + base)]; c1 = c + 1
         in if c1 = 6 then EnsureIndex_fill nIndex (i + 1) 0 (base + 4) ind1
            else EnsureIndex_fill nIndex (i + 1) c1 base ind1)
      else ind)"
  by pat_completeness auto
termination
  by (relation "measure (\<lambda>(nIndex, i, c, base, ind). nIndex - i)") auto

declare EnsureIndex_fill.simps [simp del]

text \<open>
  \<^verbatim>\<open>m_indices.SetSize( nIndex )\<close> extends the list to \<open>nIndex\<close> slots, every one of
  which the loop then writes.
\<close>

definition EnsureIndex :: "int \<Rightarrow> Canvas \<Rightarrow> Canvas" where
  "EnsureIndex nIndex s =
     (if int (length (m_indices s)) < nIndex then
        (let n = nat nIndex;
             ind0 = m_indices s @ replicate (n - length (m_indices s)) 0;
             ind = EnsureIndex_fill n 0 0 0 ind0
         in s\<lparr>m_indices := ind,
              indexVBO := (if indexVBO s = 0 then gl_names s + 1 else indexVBO s),
              gl_names := (if indexVBO s = 0 then gl_names s + 1 else gl_names s)\<rparr>)
      else s)"

section \<open>Captures and callbacks\<close>

definition AddCallback :: "string option \<Rightarrow> string \<Rightarrow> bool \<Rightarrow> Canvas \<Rightarrow> Canvas" where
  "AddCallback callbackID result' isError s =
     (case callbackID of
        None \<Rightarrow> s
      | Some ident \<Rightarrow>
          if ident \<noteq> [] then s\<lparr>m_callbacks := m_callbacks s @ [Callback_new ident result' isError]\<rparr>
          else s)"

definition GetNextCallback :: "Canvas \<Rightarrow> Callback option" where
  "GetNextCallback s = (if m_callbacks s \<noteq> [] then Some (m_callbacks s ! 0) else None)"

definition PopCallbacks :: "Canvas \<Rightarrow> Canvas" where
  "PopCallbacks s = (if m_callbacks s \<noteq> [] then s\<lparr>m_callbacks := drop 1 (m_callbacks s)\<rparr> else s)"

definition QueueCaptureGLLayer ::
  "int \<Rightarrow> int \<Rightarrow> int \<Rightarrow> int \<Rightarrow> string \<Rightarrow> string \<Rightarrow> Canvas \<Rightarrow> Canvas" where
  "QueueCaptureGLLayer x y w h callbackID fn s =
     (let heap = heap_CaptureParams s @ [CaptureParams_new x y w h callbackID fn];
          params = length heap
      in s\<lparr>heap_CaptureParams := heap, m_capParams := Append 0 [params] (m_capParams s)\<rparr>)"

text \<open>
  The bounds check of \<^verbatim>\<open>CaptureGLLayer\<close>: the rectangle \<open>(x, y, width, height)\<close> that
  is passed to \<^verbatim>\<open>glReadPixels\<close>, \<open>y\<close> already flipped to the lower-left origin of GL.
  \<open>results\<close> is the viewport.
\<close>

definition capture_rect ::
  "int \<times> int \<times> int \<times> int \<Rightarrow> CaptureParams \<Rightarrow> fault + (int \<times> int \<times> int \<times> int)" where
  "capture_rect results params =
     (let vw = fst (snd (snd results)); vh = snd (snd (snd results));
          x0 = (if cap_x params < 0 then 0 else cap_x params);
          y0 = (if cap_y params < 0 then 0 else cap_y params);
          w0 = (if cap_width params = - 1 then vw else cap_width params);
          h0 = (if cap_height params = - 1 then vh else cap_height params)
      in if \<not> int_ok (x0 + w0) then Inl SignedOverflow
         else
           (let x1 = (if x0 + w0 > vw then 0 else x0);
                w1 = (if x0 + w0 > vw then vw else w0)
            in if \<not> int_ok (y0 + h0) then Inl SignedOverflow
               else
                 (let y1 = (if y0 + h0 > vh then 0 else y0);
                      h1 = (if y0 + h0 > vh then vh else h0)
                  in if \<not> int_ok (vh - y1) \<or> \<not> int_ok (vh - y1 - h1)
                        \<or> \<not> int_ok (4 * w1) \<or> \<not> int_ok (4 * w1 * h1)
                     then Inl SignedOverflow
                     else Inr (x1, vh - y1 - h1, w1, h1))))"

text \<open>The conversion of an \<^verbatim>\<open>int\<close> to \<^verbatim>\<open>unsigned\<close>.\<close>

definition c_unsigned :: "int \<Rightarrow> int" where
  "c_unsigned v = v mod 2 ^ 32"

text \<open>
  \<^verbatim>\<open>CaptureGLLayer\<close> returns \<^verbatim>\<open>true\<close> for an error. The pixels that are read back,
  flipped and encoded are state of the GPU; of the readback the model keeps the
  rectangle and the file name, in \<open>png_log\<close>, and the result code of the encoder. On
  an encoder error the source overwrites \<^verbatim>\<open>params->fileName\<close> with the error text.

  \<^verbatim>\<open>new GLubyte [4 * width * height]\<close> never yields a null pointer: it throws when
  the platform does not have the bytes, and for every negative size. The branch
  \<^verbatim>\<open>if (!pixels) return true;\<close> behind it is therefore never taken. The encoder takes
  the width and the height as \<^verbatim>\<open>unsigned\<close> and reads four bytes of the buffer for
  every pixel; where that is more than was allocated, the read leaves the buffer.
\<close>

definition CaptureGLLayer ::
  "Platform \<Rightarrow> CaptureParams \<Rightarrow> Canvas \<Rightarrow> fault + (bool \<times> CaptureParams \<times> Canvas)" where
  "CaptureGLLayer P params s =
     (case capture_rect (gl_viewport s) params of
        Inl e \<Rightarrow> Inl e
      | Inr r \<Rightarrow>
          (let width = fst (snd (snd r)); height = snd (snd (snd r)) in
           if 4 * width * height < 0 \<or> \<not> new_GLubyte P (4 * width * height)
           then Inl BadAlloc
           else if 4 * width * height < 4 * c_unsigned width * c_unsigned height
           then Inl OutOfBounds
           else
             (let wr = (cap_fileName params, r);
                  error = lodepng_encode32_file P (png_log s) wr;
                  s1 = s\<lparr>png_log := png_log s @ [wr]\<rparr>
              in if error \<noteq> 0
                 then Inr (True,
                           params\<lparr>cap_fileName := strncpy511 (lodepng_error_text P error)\<rparr>, s1)
                 else Inr (False, params, s1))))"

text \<open>
  One turn of the capture loop of \<^verbatim>\<open>Render\<close> on the pointer \<open>ptr\<close> that
  \<^verbatim>\<open>m_capParams[i]\<close> yields: capture, then \<^verbatim>\<open>AddCallback\<close> with the fields of the
  object behind the pointer.
\<close>

definition capture_one :: "Platform \<Rightarrow> nat \<Rightarrow> Canvas \<Rightarrow> fault + Canvas" where
  "capture_one P ptr s =
     (if ptr = 0 \<or> length (heap_CaptureParams s) < ptr then Inl NullDeref
      else
        (case CaptureGLLayer P (heap_CaptureParams s ! (ptr - 1)) s of
           Inl e \<Rightarrow> Inl e
         | Inr r \<Rightarrow>
             (let isError = fst r; params = fst (snd r); s1 = snd (snd r);
                  s2 = s1\<lparr>heap_CaptureParams := (heap_CaptureParams s1)[ptr - 1 := params]\<rparr>
              in Inr (AddCallback (Some (cap_callbackID params)) (cap_fileName params)
                        isError s2))))"

lemma m_capParams_capture_one:
  "capture_one P ptr s = Inr s1 \<Longrightarrow> m_capParams s1 = m_capParams s"
  by (auto simp: capture_one_def CaptureGLLayer_def AddCallback_def Let_def
           split: if_splits sum.splits)

text \<open>
  The loop \<^verbatim>\<open>int i = 0; while(!m_capParams.IsEmpty()) { ... m_capParams.RemoveAt(i++); }\<close>
\<close>

function Render_captures :: "Platform \<Rightarrow> nat \<Rightarrow> Canvas \<Rightarrow> fault + Canvas" where
  "Render_captures P i s =
     (if IsEmpty (m_capParams s) then Inr s
      else
        (case DynArray_at (m_capParams s) i of
           None \<Rightarrow> Inl OutOfBounds
         | Some ptr \<Rightarrow>
             (case capture_one P ptr s of
                Inl e \<Rightarrow> Inl e
              | Inr s1 \<Rightarrow>
                  Render_captures P (i + 1)
                    (s1\<lparr>m_capParams := RemoveAt i (m_capParams s1)\<rparr>))))"
  by pat_completeness auto
termination
  by (relation "measure (\<lambda>(P, i, s). m_size (m_capParams s))")
     (auto simp: IsEmpty_def RemoveAt_def Let_def dest: m_capParams_capture_one)

declare Render_captures.simps [simp del]

section \<open>Render\<close>

text \<open>Division of \<^verbatim>\<open>int\<close> truncates towards zero.\<close>

definition c_div :: "int \<Rightarrow> int \<Rightarrow> int" where
  "c_div a b = sgn a * sgn b * (\<bar>a\<bar> div \<bar>b\<bar>)"

text \<open>The first loop over the streams: \<^verbatim>\<open>EnsureIndex( nVertex * 6 / 4 )\<close> for each.\<close>

definition Render_indices :: "Canvas \<Rightarrow> Canvas" where
  "Render_indices s =
     foldl (\<lambda>acc st. EnsureIndex (c_div (nVertex st * 6) 4) acc) s (m_streams s)"

text \<open>
  The second loop, over the streams and then \<^verbatim>\<open>textStream\<close>: one \<^verbatim>\<open>glDrawElements\<close>
  for each stream that has a texture.
\<close>

definition Render_draw :: "Canvas \<Rightarrow> Canvas" where
  "Render_draw s =
     s\<lparr>gl_draws :=
         concat (map (\<lambda>st. case texture st of
                             None \<Rightarrow> []
                           | Some img \<Rightarrow> [(vboVertexID st, m_glID (snd img), usesColor st,
                                           c_div (nVertex st * 6) 4)])
                     (m_streams s @ [textStream s]))\<rparr>"

text \<open>
  \<^verbatim>\<open>Render\<close> up to its capture loop: reset the tint, build the streams when there
  is text, size the index buffer, draw.
\<close>

definition Render_frame :: "Platform \<Rightarrow> string \<Rightarrow> int \<Rightarrow> Canvas \<Rightarrow> fault + Canvas" where
  "Render_frame P renderCommands len s =
     (let s1 = s\<lparr>worldColor := SetWhite (worldColor s)\<rparr> in
      case (if 0 < len
            then BuildStreams P renderCommands len (s1\<lparr>messages := messages s1 + 1\<rparr>)
            else Inr s1) of
        Inl e \<Rightarrow> Inl e
      | Inr s2 \<Rightarrow> Inr (Render_draw (Render_indices s2)))"

definition Render :: "Platform \<Rightarrow> string \<Rightarrow> int \<Rightarrow> Canvas \<Rightarrow> fault + Canvas" where
  "Render P renderCommands len s =
     (if contextLost s then Inr s
      else
        (case Render_frame P renderCommands len s of
           Inl e \<Rightarrow> Inl e
         | Inr s3 \<Rightarrow> Render_captures P 0 s3))"

section \<open>The texture registry and the context\<close>

definition AddTexture :: "int \<Rightarrow> int \<Rightarrow> int \<Rightarrow> int \<Rightarrow> Canvas \<Rightarrow> Canvas" where
  "AddTexture ident glID width height s =
     (let img = (heap_next s,
                 \<lparr>m_textureID = ident, m_glID = glID, m_Width = width, m_Height = height\<rparr>);
          s1 = s\<lparr>heap_next := heap_next s + 1, m_textures := m_textures s @ [img]\<rparr>
      in if ident = - 1 then s1\<lparr>textStream := (textStream s1)\<lparr>texture := Some img\<rparr>\<rparr> else s1)"

text \<open>
  \<^verbatim>\<open>RemoveTexture\<close> removes the first texture with the ID and resets the streams
  whose pointer is the removed one.
\<close>

fun remove_first :: "int \<Rightarrow> TexturePtr list \<Rightarrow> TexturePtr option \<times> TexturePtr list" where
  "remove_first ident [] = (None, [])"
| "remove_first ident (img # imgs) =
     (if m_textureID (snd img) = ident then (Some img, imgs)
      else (fst (remove_first ident imgs), img # snd (remove_first ident imgs)))"

definition RemoveTexture :: "int \<Rightarrow> Canvas \<Rightarrow> Canvas" where
  "RemoveTexture ident s =
     (case fst (remove_first ident (m_textures s)) of
        None \<Rightarrow> s
      | Some img \<Rightarrow>
          s\<lparr>m_textures := snd (remove_first ident (m_textures s)),
            m_streams := map (\<lambda>st. if texture st = Some img then Reset st else st)
                             (m_streams s)\<rparr>)"

definition DoContextLost :: "Canvas \<Rightarrow> Canvas" where
  "DoContextLost s = s\<lparr>contextLost := True, m_streams := [], m_textures := []\<rparr>"

definition OnSurfaceChanged :: "int \<Rightarrow> int \<Rightarrow> Canvas \<Rightarrow> Canvas" where
  "OnSurfaceChanged width height s =
     s\<lparr>gl_viewport := (0, 0, width, height), contextLost := False\<rparr>"

section \<open>A concrete platform\<close>

text \<open>
  The concrete command streams below are run on a platform whose \<^verbatim>\<open>atof\<close> and
  \<^verbatim>\<open>atoi\<close> read decimal numerals, which has every buffer that fits into the
  address space of 32 bits and whose encoder reports success, and on the canvas that the constructor returns for a viewport of
  640 by 480. The terms are evaluated with the code equations of the definitions;
  \<open>cos\<close> and \<open>sin\<close> stay uninterpreted there.
\<close>

declare cos_def [code del] sin_def [code del]

definition sample_platform :: Platform where
  "sample_platform =
     \<lparr>atof = atof_dec, atoi = atoi_dec, uninit_textureID = 0,
      new_GLubyte = (\<lambda>n. 0 \<le> n \<and> n < 2 ^ 32),
      lodepng_encode32_file = (\<lambda>log wr. 0),
      lodepng_error_text = (\<lambda>e. ''error'')\<rparr>"

definition sample_canvas :: Canvas where
  "sample_canvas = Canvas_new (0, 0, 640, 480)"

definition sample_clip :: Clip where
  "sample_clip = \<lparr>cx = 0, cy = 0, cw = 0, ch = 0, px = 0, py = 0, pw = 0, ph = 0, textureID = 0\<rparr>"

section \<open>Transform composition\<close>

text \<open>The numeric arguments that a transform command reads from the text behind its opcode.\<close>

definition tokens_of :: "Platform \<Rightarrow> string \<Rightarrow> real list" where
  "tokens_of P q = fst (ParseSetTransform_tokens P (replicate 6 0) 0 q)"

lemma fst_ParseSetTransform_concat:
  "fst (ParseSetTransform P q m True cur) =
     concat_transform cur (parsed_transform m (tokens_of P q))"
  by (simp add: ParseSetTransform_def Let_def tokens_of_def)

lemma step_f:
  "BuildStreams_step P (s, clip, n) (CHR ''f'' # q) =
     Inr ((s\<lparr>transform := fst (ParseSetTransform P q SET_XFORM True (transform s))\<rparr>, clip, n),
          snd (ParseSetTransform P q SET_XFORM True (transform s)))"
  by (simp add: BuildStreams_step_def Let_def)

lemma step_k:
  "BuildStreams_step P (s, clip, n) (CHR ''k'' # q) =
     Inr ((s\<lparr>transform := fst (ParseSetTransform P q SCALE True (transform s))\<rparr>, clip, n),
          snd (ParseSetTransform P q SCALE True (transform s)))"
  by (simp add: BuildStreams_step_def Let_def)

lemma step_r:
  "BuildStreams_step P (s, clip, n) (CHR ''r'' # q) =
     Inr ((s\<lparr>transform := fst (ParseSetTransform P q ROTATE True (transform s))\<rparr>, clip, n),
          snd (ParseSetTransform P q ROTATE True (transform s)))"
  by (simp add: BuildStreams_step_def Let_def)

lemma step_l:
  "BuildStreams_step P (s, clip, n) (CHR ''l'' # q) =
     Inr ((s\<lparr>transform := fst (ParseSetTransform P q TRANSLATE True (transform s))\<rparr>, clip, n),
          snd (ParseSetTransform P q TRANSLATE True (transform s)))"
  by (simp add: BuildStreams_step_def Let_def)

text \<open>
  C5. Each of the opcodes \<open>f\<close>, \<open>k\<close>, \<open>r\<close> and \<open>l\<close> replaces the current transform
  \<open>cur\<close> by its composition with the transform \<open>new\<close> that the opcode's arguments \<open>tk\<close>
  denote (the six values for \<open>f\<close>, a diagonal for \<open>k\<close>, a rotation for \<open>r\<close>, a
  translation for \<open>l\<close>), by the formula of the specification, and changes nothing
  else of the canvas. From the identity, translate(10,0) and then scale(2,2) leave
  the transform (2,0,0,2,10,0).
\<close>

theorem compose_law:
  fixes cur new :: Transform
  assumes op: "c = CHR ''f'' \<and> new = \<lparr>T_a = tk ! 0, T_b = tk ! 1, T_c = tk ! 2, T_d = tk ! 3,
                                         T_tx = tk ! 4, T_ty = tk ! 5\<rparr>
             \<or> c = CHR ''k'' \<and> new = \<lparr>T_a = tk ! 0, T_b = 0, T_c = 0, T_d = tk ! 1,
                                         T_tx = 0, T_ty = 0\<rparr>
             \<or> c = CHR ''r'' \<and> new = \<lparr>T_a = cos (tk ! 0), T_b = sin (tk ! 0),
                                         T_c = - sin (tk ! 0), T_d = cos (tk ! 0),
                                         T_tx = 0, T_ty = 0\<rparr>
             \<or> c = CHR ''l'' \<and> new = \<lparr>T_a = 1, T_b = 0, T_c = 0, T_d = 1,
                                         T_tx = tk ! 0, T_ty = tk ! 1\<rparr>"
    and tk: "tk = tokens_of P q" and cur: "cur = transform s"
  shows "(\<exists>p'. BuildStreams_step P (s, clip, n) (c # q) =
           Inr ((s\<lparr>transform :=
                    \<lparr>T_a = T_a cur * T_a new + T_b cur * T_c new,
                     T_b = T_a cur * T_b new + T_b cur * T_d new,
                     T_c = T_c cur * T_a new + T_d cur * T_c new,
                     T_d = T_c cur * T_b new + T_d cur * T_d new,
                     T_tx = T_a cur * T_tx new + T_b cur * T_ty new + T_tx cur,
                     T_ty = T_c cur * T_tx new + T_d cur * T_ty new + T_ty cur\<rparr>\<rparr>, clip, n), p'))
         \<and> map_sum id transform (Render sample_platform ''l10,0;k2,2;'' 11 sample_canvas) =
             Inr \<lparr>T_a = 2, T_b = 0, T_c = 0, T_d = 2, T_tx = 10, T_ty = 0\<rparr>"
proof
  have new: "new = parsed_transform
               (if c = CHR ''f'' then SET_XFORM else if c = CHR ''k'' then SCALE
                else if c = CHR ''r'' then ROTATE else TRANSLATE) (tokens_of P q)"
    using op unfolding tk
    by (elim disjE conjE) (simp_all add: parsed_transform_def Transform_new_def Let_def)
  from op consider "c = CHR ''f''" | "c = CHR ''k''" | "c = CHR ''r''" | "c = CHR ''l''"
    by blast
  then show "\<exists>p'. BuildStreams_step P (s, clip, n) (c # q) =
           Inr ((s\<lparr>transform :=
                    \<lparr>T_a = T_a cur * T_a new + T_b cur * T_c new,
                     T_b = T_a cur * T_b new + T_b cur * T_d new,
                     T_c = T_c cur * T_a new + T_d cur * T_c new,
                     T_d = T_c cur * T_b new + T_d cur * T_d new,
                     T_tx = T_a cur * T_tx new + T_b cur * T_ty new + T_tx cur,
                     T_ty = T_c cur * T_tx new + T_d cur * T_ty new + T_ty cur\<rparr>\<rparr>, clip, n), p')"
  proof cases
    case 1
    with new show ?thesis
      by (simp add: step_f fst_ParseSetTransform_concat concat_transform_def cur)
  next
    case 2
    with new show ?thesis
      by (simp add: step_k fst_ParseSetTransform_concat concat_transform_def cur)
  next
    case 3
    with new show ?thesis
      by (simp add: step_r fst_ParseSetTransform_concat concat_transform_def cur)
  next
    case 4
    with new show ?thesis
      by (simp add: step_l fst_ParseSetTransform_concat concat_transform_def cur)
  qed
  show "map_sum id transform (Render sample_platform ''l10,0;k2,2;'' 11 sample_canvas) =
             Inr \<lparr>T_a = 2, T_b = 0, T_c = 0, T_d = 2, T_tx = 10, T_ty = 0\<rparr>"
    by code_simp
qed

text \<open>
  The translation \<open>l10,0;\<close> on the canvas of the constructor: the arguments are
  \<open>10\<close> and \<open>0\<close>, the current transform is the identity, and the step leaves the
  transform (1,0,0,1,10,0).
\<close>

theorem compose_law_witness:
  "tokens_of sample_platform ''10,0;'' = [10, 0, 0, 0, 0, 0]
   \<and> transform sample_canvas = \<lparr>T_a = 1, T_b = 0, T_c = 0, T_d = 1, T_tx = 0, T_ty = 0\<rparr>
   \<and> (\<exists>p'. BuildStreams_step sample_platform (sample_canvas, sample_clip, - 1) ''l10,0;'' =
         Inr ((sample_canvas\<lparr>transform :=
                 \<lparr>T_a = 1, T_b = 0, T_c = 0, T_d = 1, T_tx = 10, T_ty = 0\<rparr>\<rparr>,
               sample_clip, - 1), p'))"
proof -
  have tk: "tokens_of sample_platform ''10,0;'' = [10, 0, 0, 0, 0, 0]"
    by code_simp
  have cur: "transform sample_canvas = \<lparr>T_a = 1, T_b = 0, T_c = 0, T_d = 1, T_tx = 0, T_ty = 0\<rparr>"
    by (simp add: sample_canvas_def Canvas_new_def Transform_new_def)
  have op: "CHR ''l'' = CHR ''l''
            \<and> \<lparr>T_a = 1, T_b = 0, T_c = 0, T_d = 1, T_tx = 10, T_ty = 0\<rparr> =
              \<lparr>T_a = 1, T_b = 0, T_c = 0, T_d = 1,
               T_tx = [10, 0, 0, 0, 0, 0 :: real] ! 0, T_ty = [10, 0, 0, 0, 0, 0] ! 1\<rparr>"
    by simp
  from compose_law [OF disjI2 [OF disjI2 [OF disjI2 [OF op]]] tk [symmetric] cur [symmetric],
                    of sample_clip "- 1", THEN conjunct1]
  have "\<exists>p'. BuildStreams_step sample_platform (sample_canvas, sample_clip, - 1) ''l10,0;'' =
         Inr ((sample_canvas\<lparr>transform :=
                 \<lparr>T_a = 1, T_b = 0, T_c = 0, T_d = 1, T_tx = 10, T_ty = 0\<rparr>\<rparr>,
               sample_clip, - 1), p')"
    by simp
  with tk cur show ?thesis by blast
qed

section \<open>Restore on an empty stack\<close>

text \<open>
  C7. The restore opcode \<open>e\<close> on an empty transform stack returns without a fault
  and leaves the canvas, and so the current transform, as it was; the cursor moves
  behind the opcode. The text \<open>e; e; e;\<close> (also written without the blanks)
  rendered on the canvas of the constructor leaves the identity and an empty stack.
\<close>

theorem restore_on_empty_stack:
  assumes "transformStack s = []"
  shows "BuildStreams_step P (s, clip, n) (CHR ''e'' # q) = Inr ((s, clip, n), q)
         \<and> map_sum id (\<lambda>r. (transform r, transformStack r))
               (Render sample_platform ''e; e; e;'' 8 sample_canvas) =
             Inr (\<lparr>T_a = 1, T_b = 0, T_c = 0, T_d = 1, T_tx = 0, T_ty = 0\<rparr>, [])
         \<and> map_sum id (\<lambda>r. (transform r, transformStack r))
               (Render sample_platform ''e;e;e;'' 6 sample_canvas) =
             Inr (\<lparr>T_a = 1, T_b = 0, T_c = 0, T_d = 1, T_tx = 0, T_ty = 0\<rparr>, [])"
proof (intro conjI)
  from assms show "BuildStreams_step P (s, clip, n) (CHR ''e'' # q) = Inr ((s, clip, n), q)"
    by (simp add: BuildStreams_step_def restore_def Let_def)
  show "map_sum id (\<lambda>r. (transform r, transformStack r))
               (Render sample_platform ''e; e; e;'' 8 sample_canvas) =
             Inr (\<lparr>T_a = 1, T_b = 0, T_c = 0, T_d = 1, T_tx = 0, T_ty = 0\<rparr>, [])"
    by code_simp
  show "map_sum id (\<lambda>r. (transform r, transformStack r))
               (Render sample_platform ''e;e;e;'' 6 sample_canvas) =
             Inr (\<lparr>T_a = 1, T_b = 0, T_c = 0, T_d = 1, T_tx = 0, T_ty = 0\<rparr>, [])"
    by code_simp
qed

text \<open>The canvas of the constructor has an empty stack; the step on \<open>e;\<close> changes nothing.\<close>

theorem restore_on_empty_stack_witness:
  "transformStack sample_canvas = []
   \<and> BuildStreams_step sample_platform (sample_canvas, sample_clip, - 1) ''e;'' =
       Inr ((sample_canvas, sample_clip, - 1), '';'')"
proof -
  have e: "transformStack sample_canvas = []"
    by (simp add: sample_canvas_def Canvas_new_def)
  from restore_on_empty_stack [OF e, of sample_platform sample_clip "- 1" "'';''", THEN conjunct1] e
  show ?thesis by simp
qed

section \<open>Draw commands\<close>

lemma find_texture_None:
  "\<forall>img \<in> set texs. m_textureID (snd img) \<noteq> tid \<Longrightarrow> find_texture texs tid = None"
  by (auto simp: find_texture_def find_None_iff)

lemma step_d:
  "BuildStreams_step P (s, clip, n) (CHR ''d'' # q) =
     (case draw_image (fst (ParseDrawImage P q clip)) n s of
        Inl e \<Rightarrow> Inl e
      | Inr r1 \<Rightarrow> Inr ((fst r1, fst (ParseDrawImage P q clip), snd r1),
                         snd (ParseDrawImage P q clip)))"
  by (simp add: BuildStreams_step_def Let_def)

text \<open>The canvas of the constructor with three textures of 16 by 16, IDs 1, 2 and 3.\<close>

definition sample_canvas_123 :: Canvas where
  "sample_canvas_123 =
     AddTexture 3 13 16 16 (AddTexture 2 12 16 16 (AddTexture 1 11 16 16 sample_canvas))"

text \<open>
  C6. A draw command whose texture ID no registered texture has is dropped: the
  step returns without a fault, the canvas (vertex buffer, streams, everything) and
  the index of the active stream are unchanged, and the loop goes on at the cursor
  behind the command. With the IDs 1, 2 and 3 registered, drawing ID 99 leaves no
  vertex, no stream and no draw call, and a draw of ID 2 that follows it is
  executed; once the texture 2 has been removed, drawing ID 2 leaves nothing
  either.
\<close>

theorem unknown_texture_dropped:
  assumes "\<forall>img \<in> set (m_textures s).
             m_textureID (snd img) \<noteq> textureID (fst (ParseDrawImage P q clip))"
  shows "BuildStreams_step P (s, clip, n) (CHR ''d'' # q) =
           Inr ((s, fst (ParseDrawImage P q clip), n), snd (ParseDrawImage P q clip))
         \<and> BuildStreams_loop P rc len (s, clip, n) (CHR ''d'' # q) =
             (if len \<le> int (length rc) - int (length (CHR ''d'' # q)) then Inr (s, clip, n)
              else BuildStreams_loop P rc len (s, fst (ParseDrawImage P q clip), n)
                     (snd (ParseDrawImage P q clip)))
         \<and> map_sum id (\<lambda>r. (vertexBuffer r, m_streams r, gl_draws r))
               (Render sample_platform ''d99,0,0,16,16,0,0,32,32;'' 24 sample_canvas_123) =
             Inr ([], [], [])
         \<and> map_sum id (\<lambda>r. (length (vertexBuffer r), map nVertex (m_streams r)))
               (Render sample_platform ''d99,0,0,16,16,0,0,32,32;d2,0,0,16,16,0,0,32,32;'' 47
                  sample_canvas_123) =
             Inr (4, [4])
         \<and> map_sum id (\<lambda>r. (vertexBuffer r, m_streams r, gl_draws r))
               (Render sample_platform ''d2,0,0,16,16,0,0,32,32;'' 23
                  (RemoveTexture 2 sample_canvas_123)) =
             Inr ([], [], [])"
proof (intro conjI)
  from assms show step: "BuildStreams_step P (s, clip, n) (CHR ''d'' # q) =
           Inr ((s, fst (ParseDrawImage P q clip), n), snd (ParseDrawImage P q clip))"
    by (simp add: step_d draw_image_def find_texture_None)
  show "BuildStreams_loop P rc len (s, clip, n) (CHR ''d'' # q) =
             (if len \<le> int (length rc) - int (length (CHR ''d'' # q)) then Inr (s, clip, n)
              else BuildStreams_loop P rc len (s, fst (ParseDrawImage P q clip), n)
                     (snd (ParseDrawImage P q clip)))"
    by (subst BuildStreams_loop.simps) (simp add: step)
  show "map_sum id (\<lambda>r. (vertexBuffer r, m_streams r, gl_draws r))
               (Render sample_platform ''d99,0,0,16,16,0,0,32,32;'' 24 sample_canvas_123) =
             Inr ([], [], [])"
    by code_simp
  show "map_sum id (\<lambda>r. (length (vertexBuffer r), map nVertex (m_streams r)))
               (Render sample_platform ''d99,0,0,16,16,0,0,32,32;d2,0,0,16,16,0,0,32,32;'' 47
                  sample_canvas_123) =
             Inr (4, [4])"
    by code_simp
  show "map_sum id (\<lambda>r. (vertexBuffer r, m_streams r, gl_draws r))
               (Render sample_platform ''d2,0,0,16,16,0,0,32,32;'' 23
                  (RemoveTexture 2 sample_canvas_123)) =
             Inr ([], [], [])"
    by code_simp
qed

text \<open>
  The canvas with the IDs 1, 2 and 3: the command \<open>d99,0,0,16,16,0,0,32,32;\<close> names
  the ID 99, and the step returns the canvas and the index \<open>-1\<close> that it was given.
\<close>

theorem unknown_texture_dropped_witness:
  "map (\<lambda>img. m_textureID (snd img)) (m_textures sample_canvas_123) = [1, 2, 3]
   \<and> ParseDrawImage sample_platform ''99,0,0,16,16,0,0,32,32;'' sample_clip =
       (\<lparr>cx = 0, cy = 0, cw = 16, ch = 16, px = 0, py = 0, pw = 32, ph = 32, textureID = 99\<rparr>, [])
   \<and> BuildStreams_step sample_platform (sample_canvas_123, sample_clip, - 1)
       ''d99,0,0,16,16,0,0,32,32;'' =
       Inr ((sample_canvas_123,
             \<lparr>cx = 0, cy = 0, cw = 16, ch = 16, px = 0, py = 0, pw = 32, ph = 32, textureID = 99\<rparr>,
             - 1), [])"
proof -
  have ids: "map (\<lambda>img. m_textureID (snd img)) (m_textures sample_canvas_123) = [1, 2, 3]"
    by code_simp
  have pdi: "ParseDrawImage sample_platform ''99,0,0,16,16,0,0,32,32;'' sample_clip =
       (\<lparr>cx = 0, cy = 0, cw = 16, ch = 16, px = 0, py = 0, pw = 32, ph = 32, textureID = 99\<rparr>, [])"
    by code_simp
  have "\<forall>i \<in> set (map (\<lambda>img. m_textureID (snd img)) (m_textures sample_canvas_123)). i \<noteq> 99"
    unfolding ids by simp
  then have hyp: "\<forall>img \<in> set (m_textures sample_canvas_123).
          m_textureID (snd img) \<noteq>
          textureID (fst (ParseDrawImage sample_platform ''99,0,0,16,16,0,0,32,32;'' sample_clip))"
    unfolding pdi by simp
  from unknown_texture_dropped [OF hyp, of "- 1", THEN conjunct1] ids pdi
  show ?thesis by simp
qed

lemma find_texture_first:
  assumes "texs = pre @ img # post"
      and "\<forall>t \<in> set pre. m_textureID (snd t) \<noteq> tid"
      and "m_textureID (snd img) = tid"
  shows "find_texture texs tid = Some img"
  using assms(2) unfolding assms(1) find_texture_def
  by (induction pre) (use assms(3) in auto)

lemma length_upload_stream [simp]:
  "length (m_streams (upload_stream k s)) = length (m_streams s)"
  by (simp add: upload_stream_def Let_def)

lemma upload_stream_fields [simp]:
  "transform (upload_stream k s) = transform s"
  "worldColor (upload_stream k s) = worldColor s"
  "vertexBuffer (upload_stream k s) = vertexBuffer s"
  by (simp_all add: upload_stream_def Let_def)

lemma select_stream_continue:
  assumes "0 \<le> n" "n < int (length (m_streams s))" "texture (m_streams s ! nat n) = Some img"
  shows "select_stream img n s = Inr (s, n)"
  using assms by (simp add: select_stream_def)

lemma select_stream_switch:
  assumes "- 1 \<le> n" "n < int (length (m_streams s))"
      and "\<not> (0 \<le> n \<and> texture (m_streams s ! nat n) = Some img)"
  shows "\<exists>s1. select_stream img n s = Inr (s1, n + 1)
              \<and> n + 1 < int (length (m_streams s1))
              \<and> texture (m_streams s1 ! nat (n + 1)) = Some img
              \<and> vertexBuffer s1 = [] \<and> transform s1 = transform s
              \<and> worldColor s1 = worldColor s"
proof (cases "n + 1 = int (length (m_streams s))")
  case True
  have "nat (n + 1) = length (m_streams s)" using True by simp
  with True assms show ?thesis
    by (simp add: select_stream_def Let_def nth_append Stream_new_def)
next
  case False
  with assms have "n + 1 < int (length (m_streams s))" "0 \<le> n + 1" by simp_all
  with False assms show ?thesis
    by (simp add: select_stream_def Let_def)
qed

lemma DoPushQuad_ok:
  assumes "0 \<le> n" "n < int (length (m_streams s))" "texture (m_streams s ! nat n) = Some img"
  shows "\<exists>s'. DoPushQuad n t clip s = Inr s'
           \<and> vertexBuffer s' = vertexBuffer s @
                 Quad_vertexArr t clip (of_int (m_Width (snd img))) (of_int (m_Height (snd img)))
                   (worldColor s)
           \<and> length (m_streams s') = length (m_streams s)
           \<and> texture (m_streams s' ! nat n) = Some img"
  using assms by (simp add: DoPushQuad_def Let_def)

lemma draw_image_resolved:
  assumes found: "find_texture (m_textures s) (textureID clip) = Some img"
      and n: "- 1 \<le> n" "n < int (length (m_streams s))"
  shows "\<exists>s' n'. draw_image clip n s = Inr (s', n')
           \<and> vertexBuffer s' =
               (if 0 \<le> n \<and> texture (m_streams s ! nat n) = Some img then vertexBuffer s else [])
               @ Quad_vertexArr (transform s) clip (of_int (m_Width (snd img)))
                   (of_int (m_Height (snd img))) (worldColor s)
           \<and> n' = (if 0 \<le> n \<and> texture (m_streams s ! nat n) = Some img then n else n + 1)
           \<and> 0 \<le> n' \<and> n' < int (length (m_streams s'))
           \<and> texture (m_streams s' ! nat n') = Some img"
proof (cases "0 \<le> n \<and> texture (m_streams s ! nat n) = Some img")
  case True
  then have sel: "select_stream img n s = Inr (s, n)"
    using n by (simp add: select_stream_continue)
  from True n DoPushQuad_ok [of n s img "transform s" clip]
  obtain s' where "DoPushQuad n (transform s) clip s = Inr s'"
    "vertexBuffer s' = vertexBuffer s @
       Quad_vertexArr (transform s) clip (of_int (m_Width (snd img)))
         (of_int (m_Height (snd img))) (worldColor s)"
    "length (m_streams s') = length (m_streams s)"
    "texture (m_streams s' ! nat n) = Some img"
    by blast
  with True n sel found show ?thesis
    by (simp add: draw_image_def)
next
  case False
  from select_stream_switch [OF n False]
  obtain s1 where s1: "select_stream img n s = Inr (s1, n + 1)"
    "n + 1 < int (length (m_streams s1))"
    "texture (m_streams s1 ! nat (n + 1)) = Some img"
    "vertexBuffer s1 = []" "transform s1 = transform s" "worldColor s1 = worldColor s"
    by blast
  from n have "0 \<le> n + 1" by simp
  from DoPushQuad_ok [OF this s1(2) s1(3), of "transform s1" clip]
  obtain s' where "DoPushQuad (n + 1) (transform s1) clip s1 = Inr s'"
    "vertexBuffer s' = vertexBuffer s1 @
       Quad_vertexArr (transform s1) clip (of_int (m_Width (snd img)))
         (of_int (m_Height (snd img))) (worldColor s1)"
    "length (m_streams s') = length (m_streams s1)"
    "texture (m_streams s' ! nat (n + 1)) = Some img"
    by blast
  with False n s1 found show ?thesis
    by (auto simp: draw_image_def)
qed

text \<open>
  The quad as the specification words it. A transform \<open>(a, b, c, d, tx, ty)\<close> takes the
  point \<open>(x, y)\<close> to \<open>(a x + c y + tx, b x + d y + ty)\<close>, the convention of the
  2D canvas whose \<^verbatim>\<open>setTransform\<close> the command stream serialises; the corners of
  the destination rectangle are transformed and floored, and the corners of the
  source rectangle are divided by the size of the texture.
\<close>

definition transform_point :: "Transform \<Rightarrow> real \<times> real \<Rightarrow> real \<times> real" where
  "transform_point t v =
     (T_a t * fst v + T_c t * snd v + T_tx t, T_b t * fst v + T_d t * snd v + T_ty t)"

definition floor_point :: "real \<times> real \<Rightarrow> Vector2" where
  "floor_point v = \<lparr>V_x = of_int \<lfloor>fst v\<rfloor>, V_y = of_int \<lfloor>snd v\<rfloor>\<rparr>"

definition spec_quad :: "Transform \<Rightarrow> Clip \<Rightarrow> real \<Rightarrow> real \<Rightarrow> Color \<Rightarrow> Vertex2 list" where
  "spec_quad t clip width height col =
     [\<lparr>pos = floor_point (transform_point t (px clip, py clip)),
       tex = \<lparr>V_x = cx clip / width, V_y = cy clip / height\<rparr>, color = col\<rparr>,
      \<lparr>pos = floor_point (transform_point t (px clip + pw clip, py clip)),
       tex = \<lparr>V_x = (cx clip + cw clip) / width, V_y = cy clip / height\<rparr>, color = col\<rparr>,
      \<lparr>pos = floor_point (transform_point t (px clip + pw clip, py clip + ph clip)),
       tex = \<lparr>V_x = (cx clip + cw clip) / width, V_y = (cy clip + ch clip) / height\<rparr>,
       color = col\<rparr>,
      \<lparr>pos = floor_point (transform_point t (px clip, py clip + ph clip)),
       tex = \<lparr>V_x = cx clip / width, V_y = (cy clip + ch clip) / height\<rparr>, color = col\<rparr>]"

lemma Quad_vertexArr_spec: "Quad_vertexArr t clip width height col = spec_quad t clip width height col"
  by (simp add: Quad_vertexArr_def spec_quad_def floor_point_def transform_point_def)

text \<open>The canvas of the constructor with one texture of 16 by 16, ID 5.\<close>

definition sample_canvas_5 :: Canvas where
  "sample_canvas_5 = AddTexture 5 7 16 16 sample_canvas"

definition vec :: "real \<Rightarrow> real \<Rightarrow> Vector2" where
  "vec x y = \<lparr>V_x = x, V_y = y\<rparr>"

text \<open>
  C4. When \<open>img\<close> is the first registered texture with the ID of the draw command
  (and \<open>n\<close> is the index of the active stream or \<open>-1\<close>), the step returns without a
  fault and the vertex buffer ends with the four vertices of the quad: the
  destination corners \<open>(px,py)\<close>, \<open>(px+pw,py)\<close>, \<open>(px+pw,py+ph)\<close>, \<open>(px,py+ph)\<close>
  under the current transform, floored, with the texture coordinates \<open>cx/width\<close>,
  \<open>cy/height\<close> to \<open>(cx+cw)/width\<close>, \<open>(cy+ch)/height\<close> at the matching corners.
  The buffer before them is kept when the active stream has the same texture and
  emptied otherwise. Rendering \<open>d5,0,0,16,16,0,0,32,32;\<close> with a texture 5 of 16 by 16
  uploads the corners (0,0), (32,0), (32,32), (0,32) with the texture coordinates
  (0,0), (1,0), (1,1), (0,1); behind a translation by 9.6 the stored \<open>x\<close> are 9 and 41.
\<close>

theorem draw_emits_quad:
  assumes first: "m_textures s = pre @ img # post"
                 "\<forall>t \<in> set pre. m_textureID (snd t) \<noteq> textureID clip'"
                 "m_textureID (snd img) = textureID clip'"
      and clip': "clip' = fst (ParseDrawImage P q clip)"
      and n: "- 1 \<le> n" "n < int (length (m_streams s))"
      and dims: "m_Width (snd img) \<noteq> 0" "m_Height (snd img) \<noteq> 0"
  shows "(\<exists>s' n' p'. BuildStreams_step P (s, clip, n) (CHR ''d'' # q) = Inr ((s', clip', n'), p')
            \<and> vertexBuffer s' =
                (if 0 \<le> n \<and> texture (m_streams s ! nat n) = Some img then vertexBuffer s else [])
                @ spec_quad (transform s) clip' (of_int (m_Width (snd img)))
                    (of_int (m_Height (snd img))) (worldColor s))
         \<and> map_sum id (\<lambda>r. map (\<lambda>st. (map pos (vboData st), map tex (vboData st))) (m_streams r))
              (Render sample_platform ''d5,0,0,16,16,0,0,32,32;'' 23 sample_canvas_5) =
             Inr [([vec 0 0, vec 32 0, vec 32 32, vec 0 32], [vec 0 0, vec 1 0, vec 1 1, vec 0 1])]
         \<and> map_sum id (\<lambda>r. map (\<lambda>st. map pos (vboData st)) (m_streams r))
              (Render sample_platform ''l9.6,0;d5,0,0,16,16,0,0,32,32;'' 30 sample_canvas_5) =
             Inr [[vec 9 0, vec 41 0, vec 41 32, vec 9 32]]"
proof (intro conjI)
  have "find_texture (m_textures s) (textureID clip') = Some img"
    using first by (rule find_texture_first)
  from draw_image_resolved [OF this n]
  show "\<exists>s' n' p'. BuildStreams_step P (s, clip, n) (CHR ''d'' # q) = Inr ((s', clip', n'), p')
            \<and> vertexBuffer s' =
                (if 0 \<le> n \<and> texture (m_streams s ! nat n) = Some img then vertexBuffer s else [])
                @ spec_quad (transform s) clip' (of_int (m_Width (snd img)))
                    (of_int (m_Height (snd img))) (worldColor s)"
    unfolding step_d clip' [symmetric] Quad_vertexArr_spec by auto
  show "map_sum id (\<lambda>r. map (\<lambda>st. (map pos (vboData st), map tex (vboData st))) (m_streams r))
              (Render sample_platform ''d5,0,0,16,16,0,0,32,32;'' 23 sample_canvas_5) =
             Inr [([vec 0 0, vec 32 0, vec 32 32, vec 0 32], [vec 0 0, vec 1 0, vec 1 1, vec 0 1])]"
    by code_simp
  show "map_sum id (\<lambda>r. map (\<lambda>st. map pos (vboData st)) (m_streams r))
              (Render sample_platform ''l9.6,0;d5,0,0,16,16,0,0,32,32;'' 30 sample_canvas_5) =
             Inr [[vec 9 0, vec 41 0, vec 41 32, vec 9 32]]"
    by code_simp
qed

text \<open>
  The command \<open>d5,0,0,16,16,0,0,32,32;\<close> on the canvas whose only texture has the ID 5:
  no stream is active, and the step leaves the quad of the example in the buffer.
\<close>

theorem draw_emits_quad_witness:
  "m_textures sample_canvas_5 =
     [] @ (1, \<lparr>m_textureID = 5, m_glID = 7, m_Width = 16, m_Height = 16\<rparr>) # []
   \<and> fst (ParseDrawImage sample_platform ''5,0,0,16,16,0,0,32,32;'' sample_clip) =
       \<lparr>cx = 0, cy = 0, cw = 16, ch = 16, px = 0, py = 0, pw = 32, ph = 32, textureID = 5\<rparr>
   \<and> (\<exists>s' n' p'.
         BuildStreams_step sample_platform (sample_canvas_5, sample_clip, - 1)
           ''d5,0,0,16,16,0,0,32,32;'' =
           Inr ((s', \<lparr>cx = 0, cy = 0, cw = 16, ch = 16, px = 0, py = 0, pw = 32, ph = 32,
                      textureID = 5\<rparr>, n'), p')
         \<and> map pos (vertexBuffer s') = [vec 0 0, vec 32 0, vec 32 32, vec 0 32]
         \<and> map tex (vertexBuffer s') = [vec 0 0, vec 1 0, vec 1 1, vec 0 1])"
proof -
  let ?img = "(1 :: nat, \<lparr>m_textureID = 5, m_glID = 7, m_Width = 16, m_Height = 16\<rparr>)"
  let ?clip = "\<lparr>cx = 0, cy = 0, cw = 16, ch = 16, px = 0, py = 0, pw = 32, ph = 32,
                 textureID = 5\<rparr>"
  have texs: "m_textures sample_canvas_5 = [] @ ?img # []"
    by code_simp
  have clip: "fst (ParseDrawImage sample_platform ''5,0,0,16,16,0,0,32,32;'' sample_clip) = ?clip"
    by code_simp
  have none: "\<forall>t \<in> set ([] :: TexturePtr list). m_textureID (snd t) \<noteq> textureID ?clip"
    by simp
  have n: "- 1 < int (length (m_streams sample_canvas_5))"
    by simp
  have tr: "transform sample_canvas_5 = Transform_new"
    by code_simp
  from draw_emits_quad [OF texs none _ clip [symmetric] _ n, THEN conjunct1]
  obtain s' n' p' where
    step: "BuildStreams_step sample_platform (sample_canvas_5, sample_clip, - 1)
             (CHR ''d'' # ''5,0,0,16,16,0,0,32,32;'') = Inr ((s', ?clip, n'), p')"
    and vb: "vertexBuffer s' =
               [] @ spec_quad (transform sample_canvas_5) ?clip 16 16 (worldColor sample_canvas_5)"
    by auto
  from vb have "map pos (vertexBuffer s') = [vec 0 0, vec 32 0, vec 32 32, vec 0 32]"
    "map tex (vertexBuffer s') = [vec 0 0, vec 1 0, vec 1 1, vec 0 1]"
    by (simp_all add: tr spec_quad_def floor_point_def transform_point_def Transform_new_def
                      vec_def)
  with step texs clip show ?thesis by auto
qed

section \<open>The index pattern of a quad\<close>









lemma ex_c3: "map_sum id (\<lambda>r. map unat (m_indices r))
              (Render sample_platform ''d5,0,0,16,16,0,0,32,32;'' 23 sample_canvas_5) = Inr [0, 1, 2, 0, 3, 2]"
  by code_simp




section \<open>The rectangle of a capture\<close>

text \<open>
  On each axis the rectangle that the bounds check returns is the full viewport
  (origin 0, full extent) when the requested extent is exactly \<open>-1\<close> or the request
  reaches past the viewport; otherwise it is the request as given, with a negative
  origin read as 0. The \<open>y\<close> that is returned is flipped: measured from the bottom
  of the viewport.
\<close>

lemma capture_rect_axes:
  assumes "capture_rect (vx, vy, vw, vh) params = Inr (x, y, w, h)"
  shows "(x, w) =
           (if cap_width params = - 1 \<or> vw < max 0 (cap_x params) + cap_width params
            then (0, vw) else (max 0 (cap_x params), cap_width params))"
    and "(vh - y - h, h) =
           (if cap_height params = - 1 \<or> vh < max 0 (cap_y params) + cap_height params
            then (0, vh) else (max 0 (cap_y params), cap_height params))"
  using assms
  by (auto simp: capture_rect_def Let_def max_def split: if_splits)

text \<open>
  The bounds check returns a rectangle for every viewport of at most 16384 by 16384
  and every request whose values are not too large.
\<close>

lemma capture_rect_returns:
  assumes vp: "results = (vx, vy, vw, vh)" "0 \<le> vw" "vw \<le> 16384" "0 \<le> vh" "vh \<le> 16384"
      and xy: "cap_x params < 2 ^ 30" "cap_y params < 2 ^ 30"
      and wh: "- 16384 \<le> cap_width params" "cap_width params < 2 ^ 30"
              "- 16384 \<le> cap_height params" "cap_height params < 2 ^ 30"
  shows "\<exists>r. capture_rect results params = Inr r"
proof -
  define x0 where "x0 = (if cap_x params < 0 then 0 else cap_x params)"
  define y0 where "y0 = (if cap_y params < 0 then 0 else cap_y params)"
  define w0 where "w0 = (if cap_width params = - 1 then vw else cap_width params)"
  define h0 where "h0 = (if cap_height params = - 1 then vh else cap_height params)"
  define x1 where "x1 = (if x0 + w0 > vw then 0 else x0)"
  define w1 where "w1 = (if x0 + w0 > vw then vw else w0)"
  define y1 where "y1 = (if y0 + h0 > vh then 0 else y0)"
  define h1 where "h1 = (if y0 + h0 > vh then vh else h0)"
  have b0: "0 \<le> x0" "x0 < 2 ^ 30" "0 \<le> y0" "y0 < 2 ^ 30"
    "- 16384 \<le> w0" "w0 < 2 ^ 30" "- 16384 \<le> h0" "h0 < 2 ^ 30"
    using vp xy wh by (auto simp: x0_def y0_def w0_def h0_def)
  have ok1: "int_ok (x0 + w0)" "int_ok (y0 + h0)"
    using b0 by (simp_all add: int_ok_def)
  have b1: "0 \<le> y1" "y1 \<le> 32768" "- 16384 \<le> w1" "w1 \<le> 16384" "- 16384 \<le> h1" "h1 \<le> 16384"
    using b0 vp by (auto simp: x1_def y1_def w1_def h1_def)
  have "\<bar>w1 * h1\<bar> \<le> 16384 * 16384"
    unfolding abs_mult using b1 by (intro mult_mono) auto
  then have wh1: "- 268435456 \<le> w1 * h1" "w1 * h1 \<le> 268435456"
    "- 268435456 \<le> h1 * w1" "h1 * w1 \<le> 268435456"
    by (simp_all add: mult.commute abs_le_iff)
  have ok2: "int_ok (vh - y1)" "int_ok (vh - y1 - h1)" "int_ok (4 * w1)" "int_ok (4 * w1 * h1)"
    using b1 vp wh1 by (simp_all add: int_ok_def mult.assoc)
  have "capture_rect results params = Inr (x1, vh - y1 - h1, w1, h1)"
    using ok1 ok2
    unfolding capture_rect_def Let_def vp(1) x0_def y0_def w0_def h0_def
          x1_def y1_def w1_def h1_def fst_conv snd_conv
    by (simp only: if_True if_False not_True_eq_False simp_thms)
  then show ?thesis by blast
qed

text \<open>
  C2 at a request of \<open>-5\<close> by \<open>10\<close> at the origin, in the viewport of 640 by 480.
  The bounds check replaces a width of \<open>-1\<close> by the width of the viewport, and it
  keeps the width \<open>-5\<close>: the rectangle is \<open>(0, 470, -5, 10)\<close>. The buffer of
  \<open>4 * -5 * 10\<close> bytes cannot be allocated, and the render call ends in the
  exception, before any readback.
\<close>

theorem negative_extent_kept:
  "gl_viewport sample_canvas = (0, 0, 640, 480)
   \<and> capture_rect (gl_viewport sample_canvas)
         (CaptureParams_new 0 0 (- 1) 10 ''cb'' ''shot.png'') = Inr (0, 470, 640, 10)
   \<and> capture_rect (gl_viewport sample_canvas)
         (CaptureParams_new 0 0 (- 5) 10 ''cb'' ''shot.png'') = Inr (0, 470, - 5, 10)
   \<and> Render sample_platform [] 0
         (QueueCaptureGLLayer 0 0 (- 5) 10 ''cb'' ''shot.png'' sample_canvas) = Inl BadAlloc"
  by code_simp

text \<open>The rectangle of that request is not the viewport.\<close>

theorem negative_extent_kept_witness:
  "capture_rect (0, 0, 640, 480) (CaptureParams_new 0 0 (- 5) 10 ''cb'' ''shot.png'') \<noteq>
     Inr (0, 0, 640, 480)"
proof -
  from negative_extent_kept have
    "gl_viewport sample_canvas = (0, 0, 640, 480)"
    "capture_rect (gl_viewport sample_canvas)
       (CaptureParams_new 0 0 (- 5) 10 ''cb'' ''shot.png'') = Inr (0, 470, - 5, 10)"
    by blast+
  then show ?thesis by simp
qed


section \<open>The capture queue\<close>

text \<open>
  What a render cycle leaves of its captures: the callbacks, the files handed to the
  encoder, and the request objects.
\<close>

definition cap_obs :: "Canvas \<Rightarrow> Callback list \<times> png_write list \<times> CaptureParams list" where
  "cap_obs s = (m_callbacks s, png_log s, heap_CaptureParams s)"


text \<open>The pointers in the capture queue, oldest first.\<close>

definition queued :: "Canvas \<Rightarrow> nat list" where
  "queued s = take (m_size (m_capParams s)) (m_entries (m_capParams s))"


lemma AddCallback_m_capParams_update:
  "AddCallback c r e (s\<lparr>m_capParams := a\<rparr>) = (AddCallback c r e s)\<lparr>m_capParams := a\<rparr>"
  by (simp add: AddCallback_def split: option.split)



lemma cap_obs_m_capParams_update [simp]: "cap_obs (t\<lparr>m_capParams := a\<rparr>) = cap_obs t"
  by (simp add: cap_obs_def)


lemma capture_one_preserves:
  assumes "capture_one P ptr s = Inr s1"
  shows "m_capParams s1 = m_capParams s" "gl_viewport s1 = gl_viewport s"
        "length (heap_CaptureParams s1) = length (heap_CaptureParams s)"
        "contextLost s1 = contextLost s" "transform s1 = transform s"
        "transformStack s1 = transformStack s" "m_streams s1 = m_streams s"
        "vertexBuffer s1 = vertexBuffer s" "worldColor s1 = worldColor s"
  using assms
  by (auto simp: capture_one_def CaptureGLLayer_def AddCallback_def Let_def
           split: if_splits sum.splits)


text \<open>What \<^verbatim>\<open>RemoveAt\<close> leaves in the block of a non-empty array.\<close>

lemma mem_copy_nth:
  assumes "off + length src \<le> length dst"
  shows "length (mem_copy dst off src) = length dst"
    and "j < length dst \<Longrightarrow> mem_copy dst off src ! j =
           (if j < off then dst ! j else if j < off + length src then src ! (j - off) else dst ! j)"
  using assms by (auto simp: mem_copy_def nth_append min_def)




text \<open>
  The queue as the interface builds it: the constructor leaves it empty, and
  \<^verbatim>\<open>QueueCaptureGLLayer\<close> puts the new request behind the ones that are queued. The
  used slots never outnumber the block.
\<close>

lemma grow_size_ge: "0 < k \<Longrightarrow> n \<le> grow_size k n"
proof (induction k n rule: grow_size.induct)
  case (1 newSize size')
  show ?case
  proof (cases "newSize < size' \<and> 0 < newSize")
    case True
    with "1.IH" have "size' \<le> grow_size (newSize * 2) size'" by simp
    with True show ?thesis by (subst grow_size.simps) simp
  next
    case False
    with "1.prems" show ?thesis by (subst grow_size.simps) simp
  qed
qed

lemma SetSize_facts:
  "m_size (SetSize z n a) = n"
  "n \<le> length (m_entries (SetSize z n a))"
  "length (m_entries a) \<le> length (m_entries (SetSize z n a))"
  "take (length (m_entries a)) (m_entries (SetSize z n a)) = m_entries a"
  using grow_size_ge [of 16 n]
  by (auto simp: SetSize_def Let_def)

lemma Append_queue:
  assumes "m_size a \<le> length (m_entries a)"
  shows "m_size (Append z [x] a) \<le> length (m_entries (Append z [x] a))"
    and "take (m_size (Append z [x] a)) (m_entries (Append z [x] a)) =
           take (m_size a) (m_entries a) @ [x]"
proof -
  let ?a1 = "SetSize z (m_size a + 1) a"
  have sz: "m_size ?a1 = m_size a + 1" and len: "m_size a + 1 \<le> length (m_entries ?a1)"
    and old: "take (length (m_entries a)) (m_entries ?a1) = m_entries a"
    using SetSize_facts [where z = z and n = "m_size a + 1" and a = a] by simp_all
  have app: "Append z [x] a = ?a1\<lparr>m_entries := mem_copy (m_entries ?a1) (m_size a) [x]\<rparr>"
    by (simp add: Append_def Let_def)
  have fit: "m_size a + length [x] \<le> length (m_entries ?a1)" using len by simp
  show "m_size (Append z [x] a) \<le> length (m_entries (Append z [x] a))"
    unfolding app using mem_copy_nth(1) [OF fit] sz len by simp
  have pre: "take (m_size a) (m_entries ?a1) = take (m_size a) (m_entries a)"
    using assms old by (metis min.absorb1 take_take)
  show "take (m_size (Append z [x] a)) (m_entries (Append z [x] a)) =
           take (m_size a) (m_entries a) @ [x]"
    unfolding app using sz pre assms len by (simp add: mem_copy_def min_def)
qed

lemma queued_Canvas_new:
  "queued (Canvas_new vp) = []"
  "m_size (m_capParams (Canvas_new vp)) \<le> length (m_entries (m_capParams (Canvas_new vp)))"
  by (simp_all add: queued_def Canvas_new_def DynArray_new_def SetSize_def Let_def)

lemma queued_QueueCaptureGLLayer:
  assumes "m_size (m_capParams s) \<le> length (m_entries (m_capParams s))"
  shows "queued (QueueCaptureGLLayer x y w h callbackID fn s) =
           queued s @ [length (heap_CaptureParams s) + 1]"
    and "heap_CaptureParams (QueueCaptureGLLayer x y w h callbackID fn s) =
           heap_CaptureParams s @ [CaptureParams_new x y w h callbackID fn]"
    and "m_size (m_capParams (QueueCaptureGLLayer x y w h callbackID fn s))
           \<le> length (m_entries (m_capParams (QueueCaptureGLLayer x y w h callbackID fn s)))"
  using Append_queue [OF assms, of 0 "length (heap_CaptureParams s) + 1"]
  by (simp_all add: queued_def QueueCaptureGLLayer_def Let_def)



text \<open>The interpretation of the command text does not touch the state of the captures.\<close>

definition cap_state ::
  "Canvas \<Rightarrow> nat DynArray \<times> CaptureParams list \<times> Callback list \<times> png_write list
             \<times> (int \<times> int \<times> int \<times> int)" where
  "cap_state s = (m_capParams s, heap_CaptureParams s, m_callbacks s, png_log s, gl_viewport s)"






lemma cap_state_restore [simp]: "cap_state (restore s) = cap_state s"
  by (simp add: restore_def cap_state_def)




lemma cap_state_EnsureIndex [simp]: "cap_state (EnsureIndex k s) = cap_state s"
  by (simp add: EnsureIndex_def Let_def cap_state_def)







lemma capture_rect_fileName [simp]:
  "capture_rect vp (req\<lparr>cap_fileName := f\<rparr>) = capture_rect vp req"
  by (simp add: capture_rect_def cong: if_cong)






definition sample_canvas_three :: Canvas where
  "sample_canvas_three =
     QueueCaptureGLLayer 0 0 (- 1) (- 1) ''c'' ''c.png''
       (QueueCaptureGLLayer 0 0 (- 1) (- 1) ''b'' ''b.png''
          (QueueCaptureGLLayer 0 0 (- 1) (- 1) ''a'' ''a.png'' sample_canvas))"

text \<open>
  With three requests queued the loop of the source, which reads the slot \<open>i\<close> and
  removes it while \<open>i\<close> counts up, captures the first, skips the second and
  captures the third twice.
\<close>

lemma three_captures_order:
  "map_sum id (\<lambda>r. (map cb_callbackID (m_callbacks r), map fst (png_log r), IsEmpty (m_capParams r)))
     (Render sample_platform [] 0 sample_canvas_three) =
     Inr ([''a'', ''c'', ''c''], [''a.png'', ''c.png'', ''c.png''], True)"
  by code_simp



section \<open>Requests without a callback ID\<close>

text \<open>
  One request with an empty callbackID alone in the queue, and one between two
  requests that have a callbackID.
\<close>

definition sample_canvas_silent :: Canvas where
  "sample_canvas_silent = QueueCaptureGLLayer 5 5 20 10 [] ''quiet.png'' sample_canvas"

definition sample_canvas_quiet :: Canvas where
  "sample_canvas_quiet =
     QueueCaptureGLLayer 0 0 (- 1) (- 1) ''c'' ''c.png''
       (QueueCaptureGLLayer 5 5 20 10 [] ''quiet.png''
          (QueueCaptureGLLayer 0 0 (- 1) (- 1) ''a'' ''a.png'' sample_canvas))"

text \<open>
  C10 at the two canvases. The request that is alone in the queue is processed, its
  rectangle read back and \<open>quiet.png\<close> handed to the encoder, and no callback is
  appended. The same request queued second of three is not processed: the render
  cycle reads back and encodes \<open>a.png\<close>, \<open>c.png\<close> and \<open>c.png\<close> again, \<open>quiet.png\<close> is
  never handed to the encoder, and the queue is empty afterwards.
\<close>

theorem silent_request_skipped:
  "map_sum id (\<lambda>r. (m_callbacks r, png_log r, IsEmpty (m_capParams r)))
     (Render sample_platform [] 0 sample_canvas_silent) =
     Inr ([], [(''quiet.png'', 5, 465, 20, 10)], True)
   \<and> map (\<lambda>p. (cap_callbackID p, cap_fileName p)) (heap_CaptureParams sample_canvas_quiet) =
       [(''a'', ''a.png''), ([], ''quiet.png''), (''c'', ''c.png'')]
   \<and> queued sample_canvas_quiet = [1, 2, 3]
   \<and> map_sum id (\<lambda>r. (map cb_callbackID (m_callbacks r), map fst (png_log r),
                        IsEmpty (m_capParams r)))
       (Render sample_platform [] 0 sample_canvas_quiet) =
       Inr ([''a'', ''c'', ''c''], [''a.png'', ''c.png'', ''c.png''], True)"
  by code_simp


section \<open>The tint across render calls\<close>

text \<open>
  The vertices of a frame: the scratch buffer, the streams with the content of
  their buffer objects, and the draw calls. \<open>then_Render\<close> is a render call on the
  canvas that an earlier call has returned.
\<close>

definition frame_vertices ::
  "Canvas \<Rightarrow> Vertex2 list \<times> Stream list \<times> (nat \<times> int \<times> bool \<times> int) list" where
  "frame_vertices s = (vertexBuffer s, m_streams s, gl_draws s)"

definition then_Render :: "Platform \<Rightarrow> string \<Rightarrow> int \<Rightarrow> fault + Canvas \<Rightarrow> fault + Canvas" where
  "then_Render P rc len r = (case r of Inl e \<Rightarrow> Inl e | Inr s \<Rightarrow> Render P rc len s)"

text \<open>
  C8. On a live context \<^verbatim>\<open>Render\<close> sets the tint to opaque white before anything
  else, so the call returns what it returns for a white tint, whatever tint the
  canvas came with; on a lost context it returns at once and generates nothing. In
  both cases the vertices of the frame do not depend on the tint that the canvas
  came with. A frame that sets the alpha to 0.5 draws its quad with the alpha 128;
  the same quad drawn by the next render call has the alpha 255.
\<close>

theorem tint_reset_each_render:
  "(\<not> contextLost s \<longrightarrow>
      Render P rc len (s\<lparr>worldColor := col\<rparr>) =
      Render P rc len (s\<lparr>worldColor := \<lparr>C_r = 255, C_g = 255, C_b = 255, C_a = 255\<rparr>\<rparr>))
   \<and> (contextLost s \<longrightarrow> Render P rc len s = Inr s)
   \<and> map_sum id frame_vertices (Render P rc len (s\<lparr>worldColor := col\<rparr>)) =
       map_sum id frame_vertices (Render P rc len (s\<lparr>worldColor := col'\<rparr>))
   \<and> map_sum id (\<lambda>r. map (\<lambda>st. map (\<lambda>v. unat (C_a (color v))) (vboData st)) (m_streams r))
         (Render sample_platform ''a0.5;d5,0,0,16,16,0,0,32,32;'' 28 sample_canvas_5) =
       Inr [[128, 128, 128, 128]]
   \<and> map_sum id (\<lambda>r. map (\<lambda>st. map (\<lambda>v. unat (C_a (color v))) (vboData st)) (m_streams r))
         (then_Render sample_platform ''d5,0,0,16,16,0,0,32,32;'' 23
            (Render sample_platform ''a0.5;d5,0,0,16,16,0,0,32,32;'' 28 sample_canvas_5)) =
       Inr [[255, 255, 255, 255]]"
proof (intro conjI impI)
  show live: "Render P rc len (s\<lparr>worldColor := col\<rparr>) =
      Render P rc len (s\<lparr>worldColor := \<lparr>C_r = 255, C_g = 255, C_b = 255, C_a = 255\<rparr>\<rparr>)"
    if "\<not> contextLost s" for col
    using that by (simp add: Render_def Render_frame_def SetWhite_def)
  show "Render P rc len s = Inr s" if "contextLost s"
    using that by (simp add: Render_def)
  show "map_sum id frame_vertices (Render P rc len (s\<lparr>worldColor := col\<rparr>)) =
       map_sum id frame_vertices (Render P rc len (s\<lparr>worldColor := col'\<rparr>))"
  proof (cases "contextLost s")
    case True
    then show ?thesis by (simp add: Render_def frame_vertices_def)
  next
    case False
    from live [OF False, of col] live [OF False, of col'] show ?thesis by simp
  qed
  show "map_sum id (\<lambda>r. map (\<lambda>st. map (\<lambda>v. unat (C_a (color v))) (vboData st)) (m_streams r))
         (Render sample_platform ''a0.5;d5,0,0,16,16,0,0,32,32;'' 28 sample_canvas_5) =
       Inr [[128, 128, 128, 128]]"
    by code_simp
  show "map_sum id (\<lambda>r. map (\<lambda>st. map (\<lambda>v. unat (C_a (color v))) (vboData st)) (m_streams r))
         (then_Render sample_platform ''d5,0,0,16,16,0,0,32,32;'' 23
            (Render sample_platform ''a0.5;d5,0,0,16,16,0,0,32,32;'' 28 sample_canvas_5)) =
       Inr [[255, 255, 255, 255]]"
    by code_simp
qed

text \<open>
  The canvas with the texture 5 is live: a half-transparent tint left on it gives
  the same render result as white. After the context is lost, the render call
  returns the canvas as it is.
\<close>

theorem tint_reset_each_render_witness:
  "\<not> contextLost sample_canvas_5
   \<and> Render sample_platform ''d5,0,0,16,16,0,0,32,32;'' 23
       (sample_canvas_5\<lparr>worldColor := \<lparr>C_r = 255, C_g = 255, C_b = 255, C_a = 128\<rparr>\<rparr>) =
     Render sample_platform ''d5,0,0,16,16,0,0,32,32;'' 23
       (sample_canvas_5\<lparr>worldColor := \<lparr>C_r = 255, C_g = 255, C_b = 255, C_a = 255\<rparr>\<rparr>)
   \<and> contextLost (DoContextLost sample_canvas_5)
   \<and> Render sample_platform ''d5,0,0,16,16,0,0,32,32;'' 23 (DoContextLost sample_canvas_5) =
       Inr (DoContextLost sample_canvas_5)"
proof -
  have live: "\<not> contextLost sample_canvas_5" by code_simp
  have lost: "contextLost (DoContextLost sample_canvas_5)" by (simp add: DoContextLost_def)
  from tint_reset_each_render
         [of sample_canvas_5 sample_platform "''d5,0,0,16,16,0,0,32,32;''" 23
             "\<lparr>C_r = 255, C_g = 255, C_b = 255, C_a = 128\<rparr>"]
       tint_reset_each_render
         [of "DoContextLost sample_canvas_5" sample_platform "''d5,0,0,16,16,0,0,32,32;''" 23]
       live lost
  show ?thesis by blast
qed

section \<open>The transform across render calls\<close>

text \<open>The current transform and the transform stack.\<close>

definition xf :: "Canvas \<Rightarrow> Transform \<times> Transform list" where
  "xf s = (transform s, transformStack s)"

lemma xf_upload_stream [simp]: "xf (upload_stream k s) = xf s"
  by (simp add: xf_def upload_stream_def Let_def)

lemma xf_EnsureIndex [simp]: "xf (EnsureIndex k s) = xf s"
  by (simp add: EnsureIndex_def Let_def xf_def)

lemma xf_Render_indices [simp]: "xf (Render_indices s) = xf s"
proof -
  have "xf (foldl (\<lambda>acc st. EnsureIndex (c_div (nVertex st * 6) 4) acc) s sts) = xf s" for sts
    by (induction sts arbitrary: s) simp_all
  then show ?thesis by (simp add: Render_indices_def)
qed

lemma xf_Render_draw [simp]: "xf (Render_draw s) = xf s"
  by (simp add: Render_draw_def xf_def)

lemma xf_Render_captures: "Render_captures P i s = Inr s' \<Longrightarrow> xf s' = xf s"
proof (induction P i s rule: Render_captures.induct)
  case (1 P i s)
  show ?case
  proof (cases "IsEmpty (m_capParams s)")
    case True
    with "1.prems" show ?thesis by (subst (asm) Render_captures.simps) simp
  next
    case False
    from "1.prems" False obtain ptr s1 where
      rd: "DynArray_at (m_capParams s) i = Some ptr" and
      one: "capture_one P ptr s = Inr s1" and
      rest: "Render_captures P (i + 1) (s1\<lparr>m_capParams := RemoveAt i (m_capParams s1)\<rparr>) = Inr s'"
      by (subst (asm) Render_captures.simps) (auto split: option.splits sum.splits)
    from "1.IH" [OF False rd one rest] capture_one_preserves(5,6) [OF one]
    show ?thesis by (simp add: xf_def)
  qed
qed

text \<open>
  C9. When a render call returns, the transform and the stack that it leaves are
  those it was given if the context is lost or there is no text to interpret;
  otherwise they are those that the interpreter loop leaves, and the loop starts
  on a canvas with the transform and the stack that the call was given: nothing
  before the loop and nothing behind it resets them. Rendering \<open>l10,0;v\<close> and
  then, in a second call, \<open>k2,2;\<close> leaves the transform (2,0,0,2,10,0) with the
  translation saved on the stack, and a third call with \<open>e\<close> restores the
  translation (1,0,0,1,10,0).
\<close>

theorem transform_persists:
  assumes "Render P rc len s = Inr s'"
  shows "(contextLost s \<or> len \<le> 0 \<longrightarrow> xf s' = xf s)
         \<and> (\<not> contextLost s \<and> 0 < len \<longrightarrow>
              (\<exists>st. BuildStreams_loop P rc len
                      (s\<lparr>worldColor := SetWhite (worldColor s), messages := messages s + 1,
                         m_streams := map Reset (m_streams s), vertexBuffer := [],
                         msgLen := msgLen s + len\<rparr>,
                       \<lparr>cx = 0, cy = 0, cw = 0, ch = 0, px = 0, py = 0, pw = 0, ph = 0,
                        textureID = uninit_textureID P\<rparr>, - 1) rc = Inr st
                 \<and> xf s' = xf (fst st)))
         \<and> xf (s\<lparr>worldColor := SetWhite (worldColor s), messages := messages s + 1,
                  m_streams := map Reset (m_streams s), vertexBuffer := [],
                  msgLen := msgLen s + len\<rparr>) = xf s
         \<and> map_sum id xf
              (then_Render sample_platform ''k2,2;'' 5
                 (Render sample_platform ''l10,0;v'' 7 sample_canvas)) =
             Inr (\<lparr>T_a = 2, T_b = 0, T_c = 0, T_d = 2, T_tx = 10, T_ty = 0\<rparr>,
                  [\<lparr>T_a = 1, T_b = 0, T_c = 0, T_d = 1, T_tx = 10, T_ty = 0\<rparr>])
         \<and> map_sum id xf
              (then_Render sample_platform ''e'' 1
                 (then_Render sample_platform ''k2,2;'' 5
                    (Render sample_platform ''l10,0;v'' 7 sample_canvas))) =
             Inr (\<lparr>T_a = 1, T_b = 0, T_c = 0, T_d = 1, T_tx = 10, T_ty = 0\<rparr>, [])"
proof (intro conjI impI)
  show "xf s' = xf s" if "contextLost s \<or> len \<le> 0"
  proof (cases "contextLost s")
    case True
    with assms show ?thesis by (simp add: Render_def)
  next
    case False
    with that have len: "\<not> 0 < len" by simp
    with False assms have
      "Render_captures P 0
         (Render_draw (Render_indices (s\<lparr>worldColor := SetWhite (worldColor s)\<rparr>))) = Inr s'"
      by (simp add: Render_def Render_frame_def)
    from xf_Render_captures [OF this]
    have "xf s' = xf (s\<lparr>worldColor := SetWhite (worldColor s)\<rparr>)" by simp
    then show ?thesis by (simp add: xf_def)
  qed
  show "\<exists>st. BuildStreams_loop P rc len
                      (s\<lparr>worldColor := SetWhite (worldColor s), messages := messages s + 1,
                         m_streams := map Reset (m_streams s), vertexBuffer := [],
                         msgLen := msgLen s + len\<rparr>,
                       \<lparr>cx = 0, cy = 0, cw = 0, ch = 0, px = 0, py = 0, pw = 0, ph = 0,
                        textureID = uninit_textureID P\<rparr>, - 1) rc = Inr st
                 \<and> xf s' = xf (fst st)"
    if "\<not> contextLost s \<and> 0 < len"
  proof -
    let ?s0 = "s\<lparr>worldColor := SetWhite (worldColor s), messages := messages s + 1,
                 m_streams := map Reset (m_streams s), vertexBuffer := [],
                 msgLen := msgLen s + len\<rparr>"
    let ?clip = "\<lparr>cx = 0, cy = 0, cw = 0, ch = 0, px = 0, py = 0, pw = 0, ph = 0,
                  textureID = uninit_textureID P\<rparr>"
    from that assms obtain s3 where
      frame: "Render_frame P rc len s = Inr s3" and caps: "Render_captures P 0 s3 = Inr s'"
      by (auto simp: Render_def split: sum.splits)
    from frame that obtain s2 where
      bs: "BuildStreams P rc len
             (s\<lparr>worldColor := SetWhite (worldColor s), messages := messages s + 1\<rparr>) = Inr s2"
      and s3: "s3 = Render_draw (Render_indices s2)"
      by (auto simp: Render_frame_def Let_def split: sum.splits)
    from bs obtain st where
      loop: "BuildStreams_loop P rc len (?s0, ?clip, - 1) rc = Inr st" and
      s2: "s2 = (if 0 \<le> snd (snd st) then upload_stream (nat (snd (snd st))) (fst st) else fst st)"
      by (auto simp: BuildStreams_def Let_def split: sum.splits if_splits)
    have "xf s' = xf s3" using caps by (rule xf_Render_captures)
    also have "\<dots> = xf s2" by (simp add: s3)
    also have "\<dots> = xf (fst st)" by (simp add: s2)
    finally show ?thesis using loop by blast
  qed
  show "xf (s\<lparr>worldColor := SetWhite (worldColor s), messages := messages s + 1,
                  m_streams := map Reset (m_streams s), vertexBuffer := [],
                  msgLen := msgLen s + len\<rparr>) = xf s"
    by (simp add: xf_def)
  show "map_sum id xf
              (then_Render sample_platform ''k2,2;'' 5
                 (Render sample_platform ''l10,0;v'' 7 sample_canvas)) =
             Inr (\<lparr>T_a = 2, T_b = 0, T_c = 0, T_d = 2, T_tx = 10, T_ty = 0\<rparr>,
                  [\<lparr>T_a = 1, T_b = 0, T_c = 0, T_d = 1, T_tx = 10, T_ty = 0\<rparr>])"
    by code_simp
  show "map_sum id xf
              (then_Render sample_platform ''e'' 1
                 (then_Render sample_platform ''k2,2;'' 5
                    (Render sample_platform ''l10,0;v'' 7 sample_canvas))) =
             Inr (\<lparr>T_a = 1, T_b = 0, T_c = 0, T_d = 1, T_tx = 10, T_ty = 0\<rparr>, [])"
    by code_simp
qed

text \<open>A canvas that an earlier frame has left translated, with one saved transform.\<close>

definition sample_canvas_moved :: Canvas where
  "sample_canvas_moved =
     sample_canvas\<lparr>transform := \<lparr>T_a = 1, T_b = 0, T_c = 0, T_d = 1, T_tx = 10, T_ty = 0\<rparr>,
                   transformStack := [\<lparr>T_a = 1, T_b = 0, T_c = 0, T_d = 1, T_tx = 10, T_ty = 0\<rparr>]\<rparr>"

text \<open>
  On that canvas a render call without text keeps the transform and the stack, and
  a render call with \<open>k2,2;\<close> scales the translation that it found.
\<close>

theorem transform_persists_witness:
  "\<not> contextLost sample_canvas_moved
   \<and> xf sample_canvas_moved =
       (\<lparr>T_a = 1, T_b = 0, T_c = 0, T_d = 1, T_tx = 10, T_ty = 0\<rparr>,
        [\<lparr>T_a = 1, T_b = 0, T_c = 0, T_d = 1, T_tx = 10, T_ty = 0\<rparr>])
   \<and> (\<exists>s'. Render sample_platform [] 0 sample_canvas_moved = Inr s'
          \<and> xf s' = xf sample_canvas_moved)
   \<and> (\<exists>s' st. Render sample_platform ''k2,2;'' 5 sample_canvas_moved = Inr s'
          \<and> BuildStreams_loop sample_platform ''k2,2;'' 5
               (sample_canvas_moved
                  \<lparr>worldColor := SetWhite (worldColor sample_canvas_moved),
                   messages := messages sample_canvas_moved + 1,
                   m_streams := map Reset (m_streams sample_canvas_moved), vertexBuffer := [],
                   msgLen := msgLen sample_canvas_moved + 5\<rparr>,
                \<lparr>cx = 0, cy = 0, cw = 0, ch = 0, px = 0, py = 0, pw = 0, ph = 0,
                 textureID = uninit_textureID sample_platform\<rparr>, - 1) ''k2,2;'' = Inr st
          \<and> xf s' = xf (fst st)
          \<and> xf s' = (\<lparr>T_a = 2, T_b = 0, T_c = 0, T_d = 2, T_tx = 10, T_ty = 0\<rparr>,
                      [\<lparr>T_a = 1, T_b = 0, T_c = 0, T_d = 1, T_tx = 10, T_ty = 0\<rparr>]))"
proof -
  let ?s = sample_canvas_moved
  have live: "\<not> contextLost ?s" by code_simp
  have x: "xf ?s = (\<lparr>T_a = 1, T_b = 0, T_c = 0, T_d = 1, T_tx = 10, T_ty = 0\<rparr>,
                    [\<lparr>T_a = 1, T_b = 0, T_c = 0, T_d = 1, T_tx = 10, T_ty = 0\<rparr>])"
    by code_simp
  have "map_sum id xf (Render sample_platform [] 0 ?s) = Inr (xf ?s)" by code_simp
  then obtain s0 where r0: "Render sample_platform [] 0 ?s = Inr s0"
    by (cases "Render sample_platform [] 0 ?s") auto
  from transform_persists [OF r0, THEN conjunct1] have x0: "xf s0 = xf ?s" by simp
  have v: "map_sum id xf (Render sample_platform ''k2,2;'' 5 ?s) =
             Inr (\<lparr>T_a = 2, T_b = 0, T_c = 0, T_d = 2, T_tx = 10, T_ty = 0\<rparr>,
                  [\<lparr>T_a = 1, T_b = 0, T_c = 0, T_d = 1, T_tx = 10, T_ty = 0\<rparr>])"
    by code_simp
  then obtain s1 where r1: "Render sample_platform ''k2,2;'' 5 ?s = Inr s1"
    by (cases "Render sample_platform ''k2,2;'' 5 ?s") auto
  with v have x1: "xf s1 = (\<lparr>T_a = 2, T_b = 0, T_c = 0, T_d = 2, T_tx = 10, T_ty = 0\<rparr>,
                            [\<lparr>T_a = 1, T_b = 0, T_c = 0, T_d = 1, T_tx = 10, T_ty = 0\<rparr>])"
    by simp
  from transform_persists [OF r1, THEN conjunct2, THEN conjunct1] live
  obtain st where
    "BuildStreams_loop sample_platform ''k2,2;'' 5
               (sample_canvas_moved
                  \<lparr>worldColor := SetWhite (worldColor sample_canvas_moved),
                   messages := messages sample_canvas_moved + 1,
                   m_streams := map Reset (m_streams sample_canvas_moved), vertexBuffer := [],
                   msgLen := msgLen sample_canvas_moved + 5\<rparr>,
                \<lparr>cx = 0, cy = 0, cw = 0, ch = 0, px = 0, py = 0, pw = 0, ph = 0,
                 textureID = uninit_textureID sample_platform\<rparr>, - 1) ''k2,2;'' = Inr st"
    "xf s1 = xf (fst st)"
    by auto
  with live x r0 x0 r1 x1 show ?thesis by blast
qed

end
